theory Spec2Isabelle
  imports Complex_Main
begin

section \<open>JavaScript values\<close>

text \<open>
  Provider responses, tool calls, tool arguments and tool results are JSON values.
  \<open>undefined\<close> is not a JSON value: a value that may be \<open>undefined\<close> has type
  \<open>jsval\<close>, where \<open>None\<close> is \<open>undefined\<close>. Numbers are integers (the code never
  computes with fractions of provider data); strings are lists of \<open>char\<close>. An object is
  the list of its own properties in property order, read with \<open>map_of\<close>.
\<close>

datatype json =
    JNull
  | JBool bool
  | JNum int
  | JStr string
  | JArr "json list"
  | JObj "(string \<times> json) list"

type_synonym jsval = "json option"

text \<open>A thrown value: the error's \<open>name\<close> and its \<open>message\<close>.\<close>

datatype exn = Exn (exn_name: string) (exn_message: string)

definition Error :: "string \<Rightarrow> exn" where
  "Error m = Exn ''Error'' m"

definition TypeError :: "string \<Rightarrow> exn" where
  "TypeError m = Exn ''TypeError'' m"

text \<open>Truthiness, as \<open>!!v\<close>, \<open>if (v)\<close> and \<open>v || w\<close> test it.\<close>

fun truthy_json :: "json \<Rightarrow> bool" where
  "truthy_json JNull = False"
| "truthy_json (JBool b) = b"
| "truthy_json (JNum n) = (n \<noteq> 0)"
| "truthy_json (JStr s) = (s \<noteq> [])"
| "truthy_json (JArr xs) = True"
| "truthy_json (JObj kvs) = True"

fun truthy :: "jsval \<Rightarrow> bool" where
  "truthy None = False"
| "truthy (Some v) = truthy_json v"

text \<open>\<open>a || b\<close> where \<open>b\<close> is never \<open>undefined\<close>.\<close>

definition or_json :: "jsval \<Rightarrow> json \<Rightarrow> json" where
  "or_json a b = (case a of None \<Rightarrow> b | Some v \<Rightarrow> if truthy_json v then v else b)"

text \<open>
  \<open>member v k\<close> is the property read \<open>v.k\<close> on a value that is neither \<open>null\<close> nor
  \<open>undefined\<close>. The code reads only the names \<open>choices\<close>, \<open>candidates\<close>, \<open>message\<close>,
  \<open>text\<close>, \<open>content\<close>, \<open>parts\<close>, \<open>tool_calls\<close>, \<open>function\<close>, \<open>name\<close>, \<open>id\<close>,
  \<open>arguments\<close>, \<open>error\<close>, \<open>length\<close> and the tool parameters; of these only \<open>length\<close>
  exists on arrays and strings, and none on numbers and booleans.
\<close>

fun member :: "json \<Rightarrow> string \<Rightarrow> jsval" where
  "member (JObj kvs) k = map_of kvs k"
| "member (JArr xs) k = (if k = ''length'' then Some (JNum (int (length xs))) else None)"
| "member (JStr s) k = (if k = ''length'' then Some (JNum (int (length s))) else None)"
| "member v k = None"

definition cannot_read :: "string \<Rightarrow> string \<Rightarrow> string" where
  "cannot_read what k = ''Cannot read properties of '' @ what @ '' (reading '' @ [CHR 0x27] @ k @ [CHR 0x27] @ '')''"

text \<open>\<open>v.k\<close> on any value: reading a property of \<open>undefined\<close> or \<open>null\<close> throws.\<close>

definition read_prop :: "jsval \<Rightarrow> string \<Rightarrow> exn + jsval" where
  "read_prop v k =
     (case v of
        None \<Rightarrow> Inl (TypeError (cannot_read ''undefined'' k))
      | Some JNull \<Rightarrow> Inl (TypeError (cannot_read ''null'' k))
      | Some x \<Rightarrow> Inr (member x k))"

text \<open>\<open>v[0]\<close> on a value that is neither \<open>null\<close> nor \<open>undefined\<close>.\<close>

fun at0 :: "json \<Rightarrow> jsval" where
  "at0 (JArr xs) = (case xs of [] \<Rightarrow> None | x # _ \<Rightarrow> Some x)"
| "at0 (JStr s) = (case s of [] \<Rightarrow> None | c # _ \<Rightarrow> Some (JStr [c]))"
| "at0 (JObj kvs) = map_of kvs ''0''"
| "at0 v = None"

subsection \<open>Conversion to strings\<close>

definition digit_char :: "nat \<Rightarrow> char" where
  "digit_char d = ''0123456789abcdef'' ! d"

function show_nat :: "nat \<Rightarrow> string" where
  "show_nat n = (if n < 10 then [digit_char n] else show_nat (n div 10) @ [digit_char (n mod 10)])"
  by pat_completeness auto
termination
  by (relation "measure (\<lambda>n. n)") auto

declare show_nat.simps [simp del]

definition show_int :: "int \<Rightarrow> string" where
  "show_int i = (if i < 0 then ''-'' @ show_nat (nat (- i)) else show_nat (nat i))"

text \<open>\<open>xs.join(sep)\<close> on strings.\<close>

fun join :: "string \<Rightarrow> string list \<Rightarrow> string" where
  "join sep [] = []"
| "join sep [x] = x"
| "join sep (x # y # ys) = x @ sep @ join sep (y # ys)"

text \<open>
  \<open>String(v)\<close>, which a template literal \<open>`${v}`\<close> and \<open>Array.prototype.join\<close> apply:
  an array is its elements joined by commas with \<open>null\<close> elements empty, a plain object
  is \<open>[object Object]\<close>.
\<close>

fun to_string :: "json \<Rightarrow> string" where
  "to_string JNull = ''null''"
| "to_string (JBool b) = (if b then ''true'' else ''false'')"
| "to_string (JNum n) = show_int n"
| "to_string (JStr s) = s"
| "to_string (JArr xs) = join '','' (map (\<lambda>x. if x = JNull then [] else to_string x) xs)"
| "to_string (JObj kvs) = ''[object Object]''"

definition str_of :: "jsval \<Rightarrow> string" where
  "str_of v = (case v of None \<Rightarrow> ''undefined'' | Some x \<Rightarrow> to_string x)"

subsection \<open>\<open>JSON.stringify\<close>\<close>

definition dquote :: char where
  "dquote = CHR 0x22"

definition backslash :: char where
  "backslash = CHR 0x5C"

definition quote_char :: "char \<Rightarrow> string" where
  "quote_char c =
     (if c = CHR 0x08 then [backslash, CHR ''b'']
      else if c = CHR 0x09 then [backslash, CHR ''t'']
      else if c = CHR 0x0A then [backslash, CHR ''n'']
      else if c = CHR 0x0C then [backslash, CHR ''f'']
      else if c = CHR 0x0D then [backslash, CHR ''r'']
      else if c = dquote then [backslash, dquote]
      else if c = backslash then [backslash, backslash]
      else if of_char c < (32::nat)
        then [backslash, CHR ''u'', CHR ''0'', CHR ''0'',
              digit_char (of_char c div 16), digit_char (of_char c mod 16)]
      else [c])"

definition quote :: "string \<Rightarrow> string" where
  "quote s = [dquote] @ concat (map quote_char s) @ [dquote]"

fun json_stringify :: "json \<Rightarrow> string" where
  "json_stringify JNull = ''null''"
| "json_stringify (JBool b) = (if b then ''true'' else ''false'')"
| "json_stringify (JNum n) = show_int n"
| "json_stringify (JStr s) = quote s"
| "json_stringify (JArr xs) = ''['' @ join '','' (map json_stringify xs) @ '']''"
| "json_stringify (JObj kvs) =
     ''{'' @ join '','' (map (\<lambda>(k, v). quote k @ '':'' @ json_stringify v) kvs) @ ''}''"

section \<open>The platform\<close>

text \<open>
  What the browser supplies and the repository does not define is a parameter of the
  model, so every theorem holds for every behaviour of it:
  \<^item> \<open>json_parse\<close> is \<open>JSON.parse\<close>; \<open>None\<close> is its \<open>SyntaxError\<close>;
  \<^item> \<open>string_positive s\<close> is \<open>s > 0\<close> for a string \<open>s\<close> (the comparison converts the
    string to a number);
  \<^item> \<open>now k\<close> is what the \<open>k\<close>-th reading of \<open>Date.now()\<close> returns;
  \<^item> \<open>fetch k req\<close> is the outcome of the \<open>k\<close>-th network request;
  \<^item> \<open>setItem_ok\<close> tells whether \<open>localStorage.setItem\<close> succeeds (it throws when the
    quota is exceeded).
\<close>

datatype body =
    ChatBody (body_model: string) (body_messages: "(string \<times> string option) list")
      (max_tokens: nat) (body_temperature: rat)
  | GenerateBody (body_messages: "(string \<times> string option) list")
      (body_temperature: rat) (maxOutputTokens: nat)

record request =
  apiUrl :: string
  authorization :: "string option"
  req_body :: body

record response =
  ok :: bool
  status :: nat
  statusText :: string
  resp_json :: "exn + json"

datatype fetch_result = Rejected exn | Responded response

record platform =
  json_parse :: "string \<Rightarrow> json option"
  string_positive :: "string \<Rightarrow> bool"
  now :: "nat \<Rightarrow> nat"
  fetch :: "nat \<Rightarrow> request \<Rightarrow> fetch_result"
  setItem_ok :: bool

section \<open>Application state\<close>

text \<open>
  A message object. \<open>addMessage\<close> builds \<open>{id, role, content, timestamp}\<close>; the agent
  loop pushes \<open>{role, content: null, tool_calls}\<close> and
  \<open>{role, tool_call_id, name, content}\<close>. A field the object does not have is \<open>None\<close>.
\<close>

record message =
  msg_id :: "string option"
  role :: string
  content :: jsval
  timestamp :: "nat option"
  tool_call_id :: jsval
  name :: jsval
  tool_calls :: jsval

record conversation =
  conv_id :: string
  title :: string
  messages :: "message list"
  createdAt :: nat
  updatedAt :: nat
  preview :: string

record llm_settings =
  provider :: string
  apiKey :: string
  model :: string
  maxTokens :: nat
  temperature :: rat

text \<open>
  \<open>state.conversations\<close> is a JavaScript \<open>Map\<close>: its entries in insertion order, with
  distinct keys. Three fields record what the code does to the outside world:
  \<open>clock\<close> counts the readings of \<open>Date.now()\<close>, \<open>requests\<close> lists the network
  requests sent, \<open>llm_calls\<close> counts the invocations of \<open>callLLM\<close>. \<open>userInput\<close> is
  the value of the input element (\<open>None\<close> when the element is missing) and \<open>storage\<close>
  the text of the item \<open>agentflow_conversations\<close> of \<open>localStorage\<close> (\<open>None\<close> when there
  is no such item).
\<close>

record app_state =
  conversations :: "(string \<times> conversation) list"
  currentConversationId :: "string option"
  isProcessing :: bool
  llm :: llm_settings
  autoSave :: bool
  apiCalls :: nat
  userInput :: "string option"
  storage :: "string option"
  clock :: nat
  requests :: "request list"
  llm_calls :: nat

definition date_now :: "platform \<Rightarrow> app_state \<Rightarrow> nat \<times> app_state" where
  "date_now P s = (now P (clock s), s\<lparr>clock := Suc (clock s)\<rparr>)"

text \<open>\<open>Map.prototype.set\<close>: an existing key keeps its place, a new key goes last.\<close>

fun map_set :: "string \<Rightarrow> 'v \<Rightarrow> (string \<times> 'v) list \<Rightarrow> (string \<times> 'v) list" where
  "map_set k v [] = [(k, v)]"
| "map_set k v ((k', v') # kvs) = (if k' = k then (k, v) # kvs else (k', v') # map_set k v kvs)"

text \<open>An assignment to fields of the conversation object stored under \<open>k\<close>.\<close>

definition update_conversation ::
  "string \<Rightarrow> (conversation \<Rightarrow> conversation) \<Rightarrow> app_state \<Rightarrow> app_state" where
  "update_conversation k f s =
     (case map_of (conversations s) k of
        None \<Rightarrow> s
      | Some conversation \<Rightarrow> s\<lparr>conversations := map_set k (f conversation) (conversations s)\<rparr>)"

text \<open>\<open>conversation.messages.push(m)\<close> on the conversation stored under \<open>k\<close>.\<close>

definition push_message :: "string \<Rightarrow> message \<Rightarrow> app_state \<Rightarrow> app_state" where
  "push_message k m s =
     update_conversation k (\<lambda>conversation. conversation\<lparr>messages := messages conversation @ [m]\<rparr>) s"

section \<open>Messages\<close>

text \<open>
  \<open>addMessage(role, content, conversationId)\<close>. Rendering (\<open>updateConversationList\<close>,
  \<open>displayMessage\<close>, \<open>scrollToBottom\<close>) changes the page only and catches its own
  exceptions; it has no part in the model.
\<close>

text \<open>Lines 620 to 626, for a string content and a role other than \<open>system\<close>.\<close>

definition touch :: "platform \<Rightarrow> string \<Rightarrow> string \<Rightarrow> app_state \<Rightarrow> app_state" where
  "touch P k str s =
     (let (t, s1) = date_now P s
      in update_conversation k
           (\<lambda>conversation.
              conversation\<lparr>preview := take 100 str,
                            title := (if title conversation = [] \<or> title conversation = ''New Conversation''
                                      then (if take 30 str = [] then ''Conversation'' else take 30 str)
                                      else title conversation),
                            updatedAt := t\<rparr>) s1)"

text \<open>Lines 617 to 626: the message is built and pushed.\<close>

definition add_to :: "platform \<Rightarrow> string \<Rightarrow> string \<Rightarrow> json \<Rightarrow> app_state \<Rightarrow> app_state" where
  "add_to P k r cv s =
     (let (t1, s1) = date_now P s;
          (t2, s2) = date_now P s1;
          m = \<lparr>msg_id = Some (''msg_'' @ show_nat t1), role = r, content = Some cv,
               timestamp = Some t2, tool_call_id = None, name = None, tool_calls = None\<rparr>;
          s3 = push_message k m s2
      in case cv of
           JStr str \<Rightarrow> if r \<noteq> ''system'' then touch P k str s3 else s3
         | _ \<Rightarrow> s3)"

definition addMessage :: "platform \<Rightarrow> string \<Rightarrow> jsval \<Rightarrow> string option \<Rightarrow> app_state \<Rightarrow> app_state" where
  "addMessage P r c conversationId s =
     (let convId = (case conversationId of
                      None \<Rightarrow> currentConversationId s
                    | Some k \<Rightarrow> if k = [] then currentConversationId s else Some k)
      in case convId of
           None \<Rightarrow> s
         | Some k \<Rightarrow>
             if k = [] then s
             else (case map_of (conversations s) k of
                     None \<Rightarrow> s
                   | Some conversation \<Rightarrow>
                       (case c of
                          None \<Rightarrow> s
                        | Some cv \<Rightarrow> if cv = JNull then s else add_to P k r cv s)))"

section \<open>Tools\<close>

definition cannot_destructure :: "string \<Rightarrow> string" where
  "cannot_destructure k =
     ''Cannot destructure property '' @ [CHR 0x27] @ k @ [CHR 0x27] @ '' of ''
       @ [CHR 0x27] @ ''object null'' @ [CHR 0x27] @ '' as it is null.''"

text \<open>
  The four handlers take their parameter by destructuring, \<open>({ query, results = 5 })\<close>:
  that throws on \<open>null\<close> and reads \<open>undefined\<close> for a property the value does not have.
\<close>

definition executeWebSearch :: "json \<Rightarrow> exn + json" where
  "executeWebSearch args =
     (if args = JNull then Inl (TypeError (cannot_destructure ''query''))
      else Inr (JObj [(''status'', JStr (''Simulated search for: '' @ str_of (member args ''query''))),
                      (''items'', JArr [])]))"

definition executeCode :: "json \<Rightarrow> exn + json" where
  "executeCode args =
     (if args = JNull then Inl (TypeError (cannot_destructure ''code''))
      else Inr (JObj [(''output'', JStr (''Simulated execution of: '' @ str_of (member args ''code'')))]))"

definition processFile :: "json \<Rightarrow> exn + json" where
  "processFile args =
     (if args = JNull then Inl (TypeError (cannot_destructure ''fileId''))
      else Inr (JObj [(''result'', JStr (''Simulated '' @ str_of (member args ''operation'')
                                           @ '' on file '' @ str_of (member args ''fileId'')))]))"

definition createVisualization :: "json \<Rightarrow> exn + json" where
  "createVisualization args =
     (if args = JNull then Inl (TypeError (cannot_destructure ''data''))
      else Inr (JObj [(''chartUrl'', JStr (''Simulated '' @ str_of (member args ''type'')
                                             @ '' chart titled '' @ [dquote]
                                             @ str_of (member args ''title'') @ [dquote]))]))"

text \<open>The local \<open>func\<close> of \<open>executeTool\<close>: \<open>toolCall.function || {}\<close>.\<close>

definition tool_func :: "json \<Rightarrow> json" where
  "tool_func toolCall = or_json (member toolCall ''function'') (JObj [])"

text \<open>The local \<open>name\<close>: \<open>func.name || func?.name || 'unknown'\<close>.\<close>

definition tool_name :: "json \<Rightarrow> json" where
  "tool_name toolCall =
     or_json (member (tool_func toolCall) ''name'')
       (or_json (member (tool_func toolCall) ''name'') (JStr ''unknown''))"

text \<open>
  The local \<open>args\<close> after the \<open>try\<close>/\<open>catch\<close>: \<open>{}\<close>, unless \<open>toolCall.arguments\<close> is
  truthy; then what \<open>JSON.parse\<close> makes of a string (\<open>{}\<close> when it throws), and the
  value itself otherwise.
\<close>

definition tool_args :: "platform \<Rightarrow> json \<Rightarrow> json" where
  "tool_args P toolCall =
     (case member toolCall ''arguments'' of
        None \<Rightarrow> JObj []
      | Some a \<Rightarrow>
          if truthy_json a then
            (case a of
               JStr str \<Rightarrow> (case json_parse P str of None \<Rightarrow> JObj [] | Some v \<Rightarrow> v)
             | _ \<Rightarrow> a)
          else JObj [])"

text \<open>The \<open>switch (name)\<close> of \<open>executeTool\<close>; \<open>case\<close> labels compare with \<open>===\<close>.\<close>

definition dispatch :: "json \<Rightarrow> json \<Rightarrow> exn + json" where
  "dispatch nm args =
     (if nm = JStr ''web_search'' then executeWebSearch args
      else if nm = JStr ''execute_code'' then executeCode args
      else if nm = JStr ''process_file'' then processFile args
      else if nm = JStr ''create_visualization'' then createVisualization args
      else Inr (JObj [(''error'', JStr (''Unknown tool: '' @ to_string nm))]))"

definition registered :: "json \<Rightarrow> bool" where
  "registered nm =
     (nm = JStr ''web_search'' \<or> nm = JStr ''execute_code'' \<or> nm = JStr ''process_file''
      \<or> nm = JStr ''create_visualization'')"

text \<open>
  \<open>executeTool(toolCall)\<close>: the result the returned promise settles with (\<open>Inl\<close> when it
  rejects) and the state after the call. The notice \<open>Executing tool: ...\<close> goes to the
  current conversation.
\<close>

definition executeTool :: "platform \<Rightarrow> json \<Rightarrow> app_state \<Rightarrow> (exn + json) \<times> app_state" where
  "executeTool P toolCall s =
     (case read_prop (Some toolCall) ''function'' of
        Inl e \<Rightarrow> (Inl e, s)
      | Inr _ \<Rightarrow>
          let nm = tool_name toolCall;
              args = tool_args P toolCall;
              s1 = addMessage P ''system'' (Some (JStr (''Executing tool: '' @ to_string nm)))
                     (currentConversationId s) s
          in (dispatch nm args, s1))"

section \<open>The provider adapter\<close>

text \<open>
  \<open>typeof m.content === 'string' ? m.content : JSON.stringify(m.content)\<close>;
  \<open>JSON.stringify(undefined)\<close> is \<open>undefined\<close>.
\<close>

definition serialize_content :: "jsval \<Rightarrow> string option" where
  "serialize_content c =
     (case c of
        None \<Rightarrow> None
      | Some (JStr str) \<Rightarrow> Some str
      | Some v \<Rightarrow> Some (json_stringify v))"

text \<open>\<open>!!m.content\<close> on a string or \<open>undefined\<close>.\<close>

definition truthy_string :: "string option \<Rightarrow> bool" where
  "truthy_string c = (case c of None \<Rightarrow> False | Some str \<Rightarrow> str \<noteq> [])"

text \<open>The outbound list of \<open>callLLM\<close>: pairs of \<open>role\<close> and \<open>content\<close>.\<close>

definition messagesForApi :: "message list \<Rightarrow> (string \<times> string option) list" where
  "messagesForApi ms =
     filter (\<lambda>m. truthy_string (snd m))
       (map (\<lambda>m. if role m = ''tool'' then (''system'', serialize_content (content m))
                 else (role m, serialize_content (content m))) ms)"

definition demo_response :: json where
  "demo_response =
     JObj [(''choices'',
            JArr [JObj [(''message'',
                         JObj [(''content'',
                                JStr ''Demo response: provide an API key in settings to use real models.'')])]])]"

text \<open>The \<open>switch (provider)\<close> of \<open>callLLM\<close>: the request, or the error of the default case.\<close>

definition provider_request :: "llm_settings \<Rightarrow> (string \<times> string option) list \<Rightarrow> exn + request" where
  "provider_request cfg msgs =
     (if provider cfg = ''openai'' then
        Inr \<lparr>apiUrl = ''https://api.openai.com/v1/chat/completions'',
             authorization = Some (''Bearer '' @ apiKey cfg),
             req_body = ChatBody (model cfg) msgs (maxTokens cfg) (temperature cfg)\<rparr>
      else if provider cfg = ''google'' then
        Inr \<lparr>apiUrl = ''https://generativelanguage.googleapis.com/v1beta/models/'' @ model cfg
                        @ '':generateContent?key='' @ apiKey cfg,
             authorization = None,
             req_body = GenerateBody
                          (map (\<lambda>m. (if fst m = ''assistant'' then ''model'' else ''user'', snd m)) msgs)
                          (temperature cfg) (maxTokens cfg)\<rparr>
      else if provider cfg = ''aipipe'' then
        Inr \<lparr>apiUrl = ''https://aipipe.org/openrouter/v1/chat/completions'',
             authorization = Some (''Bearer '' @ apiKey cfg),
             req_body = ChatBody (if model cfg = [] then ''openai/gpt-4o-mini'' else model cfg)
                          (map (\<lambda>m. (fst m, snd m)) msgs) (maxTokens cfg) (temperature cfg)\<rparr>
      else Inl (Error (''Unsupported provider: '' @ provider cfg)))"

text \<open>\<open>v?.k\<close>\<close>

definition optional_member :: "jsval \<Rightarrow> string \<Rightarrow> jsval" where
  "optional_member v k = (case v of None \<Rightarrow> None | Some JNull \<Rightarrow> None | Some x \<Rightarrow> member x k)"

text \<open>
  The text \<open>errText\<close> of a response that is not \<open>ok\<close>: status and status text, replaced
  by \<open>errJson.error?.message || JSON.stringify(errJson)\<close> when the body parses and
  reading it does not throw.
\<close>

definition error_details :: "response \<Rightarrow> string" where
  "error_details resp =
     (case resp_json resp of
        Inl _ \<Rightarrow> show_nat (status resp) @ '' '' @ statusText resp
      | Inr errJson \<Rightarrow>
          (case read_prop (Some errJson) ''error'' of
             Inl _ \<Rightarrow> show_nat (status resp) @ '' '' @ statusText resp
           | Inr err \<Rightarrow>
               to_string (or_json (optional_member err ''message'') (JStr (json_stringify errJson)))))"

text \<open>The dash of the message is U+2014, three bytes in UTF-8.\<close>

definition not_supported :: "response \<Rightarrow> string" where
  "not_supported resp =
     ''Model not supported for your API key '' @ [CHR 0xE2, CHR 0x80, CHR 0x94]
       @ '' change model in settings. (Status: '' @ show_nat (status resp)
       @ '', Details: '' @ error_details resp @ '')''"

text \<open>The outer \<open>catch\<close>: \<open>throw new Error(err.message || 'Network error')\<close>.\<close>

definition rethrow :: "exn \<Rightarrow> exn" where
  "rethrow err = Error (if exn_message err = [] then ''Network error'' else exn_message err)"

text \<open>The \<open>try\<close> block of \<open>callLLM\<close>: one \<open>fetch\<close>, recorded in \<open>requests\<close>.\<close>

definition post_request :: "platform \<Rightarrow> request \<Rightarrow> app_state \<Rightarrow> (exn + json) \<times> app_state" where
  "post_request P req s =
     (let s1 = s\<lparr>requests := requests s @ [req]\<rparr>
      in case fetch P (length (requests s)) req of
           Rejected err \<Rightarrow> (Inl (rethrow err), s1)
         | Responded resp \<Rightarrow>
             if \<not> ok resp then (Inl (rethrow (Error (not_supported resp))), s1)
             else (case resp_json resp of
                     Inl err \<Rightarrow> (Inl (rethrow err), s1)
                   | Inr data \<Rightarrow> (Inr data, s1)))"

definition callLLM :: "platform \<Rightarrow> conversation \<Rightarrow> app_state \<Rightarrow> (exn + json) \<times> app_state" where
  "callLLM P conversation s0 =
     (let s = s0\<lparr>llm_calls := Suc (llm_calls s0)\<rparr>;
          msgs = messagesForApi (messages conversation)
      in if provider (llm s) = [] then (Inl (Error ''No LLM provider configured.''), s)
         else if apiKey (llm s) = [] then (Inr demo_response, s)
         else (case provider_request (llm s) msgs of
                 Inl e \<Rightarrow> (Inl e, s)
               | Inr req \<Rightarrow> post_request P req s))"

subsection \<open>Parsing the response\<close>

text \<open>\<open>v > 0\<close>: \<open>undefined\<close> and objects convert to \<open>NaN\<close>, \<open>null\<close> to 0, \<open>true\<close> to 1.\<close>

definition js_gt0 :: "platform \<Rightarrow> jsval \<Rightarrow> bool" where
  "js_gt0 P v =
     (case v of
        None \<Rightarrow> False
      | Some JNull \<Rightarrow> False
      | Some (JBool b) \<Rightarrow> b
      | Some (JNum n) \<Rightarrow> 0 < n
      | Some (JStr str) \<Rightarrow> string_positive P str
      | Some (JArr xs) \<Rightarrow> string_positive P (to_string (JArr xs))
      | Some (JObj kvs) \<Rightarrow> False)"

text \<open>\<open>v && v.length > 0\<close>\<close>

definition has_items :: "platform \<Rightarrow> jsval \<Rightarrow> bool" where
  "has_items P v =
     (case v of None \<Rightarrow> False | Some x \<Rightarrow> truthy_json x \<and> js_gt0 P (member x ''length''))"

text \<open>\<open>v[0]\<close> on any value.\<close>

definition read_at0 :: "jsval \<Rightarrow> exn + jsval" where
  "read_at0 v =
     (case v of
        None \<Rightarrow> Inl (TypeError (cannot_read ''undefined'' ''0''))
      | Some JNull \<Rightarrow> Inl (TypeError (cannot_read ''null'' ''0''))
      | Some x \<Rightarrow> Inr (at0 x))"

text \<open>\<open>{ content: v }\<close>; a property that is \<open>undefined\<close> reads like an absent one.\<close>

definition content_object :: "jsval \<Rightarrow> json" where
  "content_object v = (case v of None \<Rightarrow> JObj [] | Some x \<Rightarrow> JObj [(''content'', x)])"

text \<open>\<open>c0.message || { content: c0.text || '' }\<close>\<close>

definition choice_message :: "jsval \<Rightarrow> exn + json" where
  "choice_message c0 =
     (case read_prop c0 ''message'' of
        Inl e \<Rightarrow> Inl e
      | Inr message \<Rightarrow>
          if truthy message then Inr (or_json message JNull)
          else (case read_prop c0 ''text'' of
                  Inl e \<Rightarrow> Inl e
                | Inr text \<Rightarrow> Inr (JObj [(''content'', or_json text (JStr []))])))"

text \<open>\<open>parts.map((p) => p.text || p)\<close>\<close>

fun part_texts :: "json list \<Rightarrow> exn + json list" where
  "part_texts [] = Inr []"
| "part_texts (p # ps) =
     (case read_prop (Some p) ''text'' of
        Inl e \<Rightarrow> Inl e
      | Inr text \<Rightarrow>
          (case part_texts ps of
             Inl e \<Rightarrow> Inl e
           | Inr ts \<Rightarrow> Inr (or_json text p # ts)))"

text \<open>The second and third return of the \<open>openai\<close>/\<open>aipipe\<close> case.\<close>

definition parse_candidates :: "platform \<Rightarrow> json \<Rightarrow> exn + json" where
  "parse_candidates P data =
     (case read_prop (Some data) ''candidates'' of
        Inl e \<Rightarrow> Inl e
      | Inr candidates \<Rightarrow>
          if has_items P candidates then
            (case read_at0 candidates of
               Inl e \<Rightarrow> Inl e
             | Inr c0 \<Rightarrow>
                 (case read_prop c0 ''content'' of
                    Inl e \<Rightarrow> Inl e
                  | Inr cnt \<Rightarrow>
                      (case or_json (optional_member cnt ''parts'') (or_json cnt (JArr [])) of
                         JArr ps \<Rightarrow>
                           (case part_texts ps of
                              Inl e \<Rightarrow> Inl e
                            | Inr ts \<Rightarrow>
                                Inr (JObj [(''content'',
                                            JStr (join [] (map (\<lambda>x. if x = JNull then [] else to_string x) ts)))]))
                       | parts \<Rightarrow> Inr (JObj [(''content'', parts)]))))
          else Inr (JObj [(''content'', JStr (json_stringify data))]))"

definition parse_chat :: "platform \<Rightarrow> json \<Rightarrow> exn + json" where
  "parse_chat P data =
     (case read_prop (Some data) ''choices'' of
        Inl e \<Rightarrow> Inl e
      | Inr choices \<Rightarrow>
          if has_items P choices then
            (case read_at0 choices of Inl e \<Rightarrow> Inl e | Inr c0 \<Rightarrow> choice_message c0)
          else parse_candidates P data)"

text \<open>The \<open>google\<close> case: \<open>data.candidates[0].content.parts[0].text\<close>.\<close>

definition parse_generate :: "json \<Rightarrow> exn + json" where
  "parse_generate data =
     (case read_prop (Some data) ''candidates'' of
        Inl e \<Rightarrow> Inl e
      | Inr candidates \<Rightarrow>
          if truthy candidates \<and> truthy (optional_member candidates ''length'') then
            (case read_at0 candidates of
               Inl e \<Rightarrow> Inl e
             | Inr c0 \<Rightarrow>
                 (case read_prop c0 ''content'' of
                    Inl e \<Rightarrow> Inl e
                  | Inr cnt \<Rightarrow>
                      (case read_prop cnt ''parts'' of
                         Inl e \<Rightarrow> Inl e
                       | Inr parts \<Rightarrow>
                           (case read_at0 parts of
                              Inl e \<Rightarrow> Inl e
                            | Inr p0 \<Rightarrow>
                                (case read_prop p0 ''text'' of
                                   Inl e \<Rightarrow> Inl e
                                 | Inr text \<Rightarrow> Inr (content_object text))))))
          else Inr (JObj [(''content'', JStr (json_stringify data))]))"

text \<open>Whatever the extraction throws is replaced by one error.\<close>

definition parseAPIResponse :: "platform \<Rightarrow> json \<Rightarrow> string \<Rightarrow> exn + json" where
  "parseAPIResponse P data prov =
     (case (if prov = ''openai'' \<or> prov = ''aipipe'' then parse_chat P data
            else if prov = ''google'' then parse_generate data
            else Inr (JObj [(''content'', JStr ''Response format not recognized.'')])) of
        Inl _ \<Rightarrow> Inl (Error ''Could not parse the API response.'')
      | Inr response \<Rightarrow> Inr response)"

section \<open>Conversations\<close>

text \<open>\<open>loadConversation(id)\<close>; what it renders is not modelled.\<close>

definition loadConversation :: "string \<Rightarrow> app_state \<Rightarrow> app_state" where
  "loadConversation k s = (if k = [] then s else s\<lparr>currentConversationId := Some k\<rparr>)"

definition createNewConversation :: "platform \<Rightarrow> app_state \<Rightarrow> string \<times> app_state" where
  "createNewConversation P s =
     (let (t1, s1) = date_now P s;
          (t2, s2) = date_now P s1;
          (t3, s3) = date_now P s2;
          k = ''conv_'' @ show_nat t1;
          convObj = \<lparr>conv_id = k, title = ''New Conversation'', messages = [],
                     createdAt = t2, updatedAt = t3, preview = ''...''\<rparr>
      in (k, loadConversation k (s3\<lparr>conversations := map_set k convObj (conversations s3)\<rparr>)))"

subsection \<open>The stored text\<close>

text \<open>
  A property whose value is \<open>undefined\<close> is left out of the text \<open>JSON.stringify\<close>
  writes.
\<close>

definition opt_field :: "string \<Rightarrow> jsval \<Rightarrow> (string \<times> json) list" where
  "opt_field k v = (case v of None \<Rightarrow> [] | Some x \<Rightarrow> [(k, x)])"

text \<open>
  The message, the conversation and the array of the map's entries as the JSON values
  \<open>JSON.stringify\<close> serializes. The properties of a message come in the order in which
  the code writes them in its three object literals:
  \<open>{id, role, content, timestamp}\<close>, \<open>{role, content, tool_calls}\<close> and
  \<open>{role, tool_call_id, name, content}\<close>.
\<close>

definition message_json :: "message \<Rightarrow> json" where
  "message_json m =
     JObj (opt_field ''id'' (map_option JStr (msg_id m))
           @ [(''role'', JStr (role m))]
           @ opt_field ''tool_call_id'' (tool_call_id m)
           @ opt_field ''name'' (name m)
           @ opt_field ''content'' (content m)
           @ opt_field ''timestamp'' (map_option (\<lambda>t. JNum (int t)) (timestamp m))
           @ opt_field ''tool_calls'' (tool_calls m))"

definition conversation_json :: "conversation \<Rightarrow> json" where
  "conversation_json c =
     JObj [(''id'', JStr (conv_id c)), (''title'', JStr (title c)),
           (''messages'', JArr (map message_json (messages c))),
           (''createdAt'', JNum (int (createdAt c))), (''updatedAt'', JNum (int (updatedAt c))),
           (''preview'', JStr (preview c))]"

text \<open>\<open>Array.from(this.state.conversations.entries())\<close>\<close>

definition entries_json :: "(string \<times> conversation) list \<Rightarrow> json" where
  "entries_json entries = JArr (map (\<lambda>e. JArr [JStr (fst e), conversation_json (snd e)]) entries)"

text \<open>
  \<open>saveCurrentConversation\<close>: with auto-save on, the text \<open>JSON.stringify\<close> makes of
  the entries replaces the stored item; a failing \<open>setItem\<close> is caught.
\<close>

definition saveCurrentConversation :: "platform \<Rightarrow> app_state \<Rightarrow> app_state" where
  "saveCurrentConversation P s =
     (if autoSave s then
        (if setItem_ok P
         then s\<lparr>storage := Some (json_stringify (entries_json (conversations s)))\<rparr>
         else s)
      else s)"

text \<open>
  Reading the parsed value back. The state holds conversations as records, so the
  model reads only values that have the fields of a conversation with their types. A
  stamp that is missing or \<open>null\<close> is falsy, 0 in the model, and missing \<open>messages\<close> are
  \<open>[]\<close>, as \<open>conv.messages || []\<close> makes them. For any other value the model takes the
  \<open>catch\<close> branch, where the code would keep the value as it is.
\<close>

definition as_string :: "jsval \<Rightarrow> string option" where
  "as_string v = (case v of Some (JStr str) \<Rightarrow> Some str | _ \<Rightarrow> None)"

definition opt_string :: "jsval \<Rightarrow> string option option" where
  "opt_string v = (case v of None \<Rightarrow> Some None | Some (JStr str) \<Rightarrow> Some (Some str) | _ \<Rightarrow> None)"

definition opt_nat :: "jsval \<Rightarrow> nat option option" where
  "opt_nat v =
     (case v of
        None \<Rightarrow> Some None
      | Some (JNum n) \<Rightarrow> if 0 \<le> n then Some (Some (nat n)) else None
      | _ \<Rightarrow> None)"

definition stamp :: "jsval \<Rightarrow> nat option" where
  "stamp v =
     (case v of
        None \<Rightarrow> Some 0
      | Some JNull \<Rightarrow> Some 0
      | Some (JNum n) \<Rightarrow> if 0 \<le> n then Some (nat n) else None
      | _ \<Rightarrow> None)"

fun decode_list :: "('a \<Rightarrow> 'b option) \<Rightarrow> 'a list \<Rightarrow> 'b list option" where
  "decode_list f [] = Some []"
| "decode_list f (x # xs) =
     (case f x of
        None \<Rightarrow> None
      | Some y \<Rightarrow> (case decode_list f xs of None \<Rightarrow> None | Some ys \<Rightarrow> Some (y # ys)))"

definition decode_message :: "json \<Rightarrow> message option" where
  "decode_message v =
     (case v of
        JObj kvs \<Rightarrow>
          (case (as_string (map_of kvs ''role''), opt_string (map_of kvs ''id''),
                 opt_nat (map_of kvs ''timestamp'')) of
             (Some r, Some i, Some t) \<Rightarrow>
               Some \<lparr>msg_id = i, role = r, content = map_of kvs ''content'', timestamp = t,
                     tool_call_id = map_of kvs ''tool_call_id'', name = map_of kvs ''name'',
                     tool_calls = map_of kvs ''tool_calls''\<rparr>
           | _ \<Rightarrow> None)
      | _ \<Rightarrow> None)"

definition decode_messages :: "jsval \<Rightarrow> message list option" where
  "decode_messages v =
     (case v of
        None \<Rightarrow> Some []
      | Some (JArr ms) \<Rightarrow> decode_list decode_message ms
      | Some x \<Rightarrow> if truthy_json x then None else Some [])"

definition decode_conversation :: "json \<Rightarrow> conversation option" where
  "decode_conversation v =
     (case v of
        JObj kvs \<Rightarrow>
          (case (as_string (map_of kvs ''id''), as_string (map_of kvs ''title''),
                 decode_messages (map_of kvs ''messages''), stamp (map_of kvs ''createdAt''),
                 stamp (map_of kvs ''updatedAt''), as_string (map_of kvs ''preview'')) of
             (Some i, Some t, Some ms, Some c, Some u, Some p) \<Rightarrow>
               Some \<lparr>conv_id = i, title = t, messages = ms, createdAt = c, updatedAt = u,
                     preview = p\<rparr>
           | _ \<Rightarrow> None)
      | _ \<Rightarrow> None)"

text \<open>An element \<open>[k, v]\<close> of the stored array.\<close>

definition decode_entry :: "json \<Rightarrow> (string \<times> conversation) option" where
  "decode_entry e =
     (case e of
        JArr (JStr k # v # _) \<Rightarrow> map_option (Pair k) (decode_conversation v)
      | _ \<Rightarrow> None)"

text \<open>
  Lines 691 to 693: the elements of an array, the \<open>Object.entries\<close> of an object
  (which throws on \<open>null\<close>), and no entries for any other value.
\<close>

definition stored_entries :: "json \<Rightarrow> (string \<times> conversation) list option" where
  "stored_entries parsed =
     (case parsed of
        JArr es \<Rightarrow> decode_list decode_entry es
      | JObj kvs \<Rightarrow> decode_list (\<lambda>e. map_option (Pair (fst e)) (decode_conversation (snd e))) kvs
      | JNull \<Rightarrow> None
      | _ \<Rightarrow> Some [])"

text \<open>\<open>new Map(entries)\<close>\<close>

definition new_Map :: "(string \<times> 'v) list \<Rightarrow> (string \<times> 'v) list" where
  "new_Map entries = foldl (\<lambda>m e. map_set (fst e) (snd e) m) [] entries"

text \<open>
  The \<open>forEach\<close> of \<open>loadConversationHistory\<close>:
  \<open>conv.updatedAt = conv.updatedAt || conv.createdAt || Date.now()\<close>. The clock is read
  only when both stamps are falsy.
\<close>

fun restore_stamps ::
  "platform \<Rightarrow> (string \<times> conversation) list \<Rightarrow> app_state
     \<Rightarrow> (string \<times> conversation) list \<times> app_state" where
  "restore_stamps P [] s = ([], s)"
| "restore_stamps P ((k, conv) # rest) s =
     (if updatedAt conv \<noteq> 0 then
        (let (rest', s') = restore_stamps P rest s in ((k, conv) # rest', s'))
      else if createdAt conv \<noteq> 0 then
        (let (rest', s') = restore_stamps P rest s
         in ((k, conv\<lparr>updatedAt := createdAt conv\<rparr>) # rest', s'))
      else
        (let (t, s1) = date_now P s;
             (rest', s') = restore_stamps P rest s1
         in ((k, conv\<lparr>updatedAt := t\<rparr>) # rest', s')))"

text \<open>
  \<open>Array.from(values).sort((a, b) => b.updatedAt - a.updatedAt)\<close>: a stable sort, the
  latest update first.
\<close>

definition by_recency :: "(string \<times> conversation) list \<Rightarrow> conversation list" where
  "by_recency entries = sort_key (\<lambda>c. - int (updatedAt c)) (map snd entries)"

text \<open>
  \<open>loadConversationHistory\<close>: no item or an empty text gives a new conversation; a text
  \<open>JSON.parse\<close> rejects, or a value that cannot be read, gives an empty map and a new
  conversation; otherwise the map is rebuilt from the entries and the most recent
  conversation becomes the current one.
\<close>

definition loadConversationHistory :: "platform \<Rightarrow> app_state \<Rightarrow> app_state" where
  "loadConversationHistory P s =
     (let fresh = (\<lambda>s'. snd (createNewConversation P (s'\<lparr>conversations := []\<rparr>)));
          restore = (\<lambda>entries.
             let (convs, s1) = restore_stamps P (new_Map entries) s;
                 s2 = s1\<lparr>conversations := convs\<rparr>
             in case by_recency convs of
                  [] \<Rightarrow> snd (createNewConversation P s2)
                | recent # _ \<Rightarrow> loadConversation (conv_id recent) s2)
      in case storage s of
           None \<Rightarrow> snd (createNewConversation P s)
         | Some stored \<Rightarrow>
             if stored = [] then snd (createNewConversation P s)
             else (case json_parse P stored of
                     None \<Rightarrow> fresh s
                   | Some parsed \<Rightarrow>
                       (case stored_entries parsed of
                          None \<Rightarrow> fresh s
                        | Some entries \<Rightarrow> restore entries)))"

section \<open>The agent loop\<close>

text \<open>\<open>tc.function.name\<close> for each call, as the notice \<open>Using tools: ...\<close> reads it.\<close>

fun tool_names :: "json list \<Rightarrow> exn + jsval list" where
  "tool_names [] = Inr []"
| "tool_names (tc # tcs) =
     (case read_prop (Some tc) ''function'' of
        Inl e \<Rightarrow> Inl e
      | Inr f \<Rightarrow>
          (case read_prop f ''name'' of
             Inl e \<Rightarrow> Inl e
           | Inr n \<Rightarrow>
               (case tool_names tcs of
                  Inl e \<Rightarrow> Inl e
                | Inr ns \<Rightarrow> Inr (n # ns))))"

text \<open>\<open>names.join(', ')\<close>: \<open>undefined\<close> and \<open>null\<close> elements are empty.\<close>

definition join_names :: "jsval list \<Rightarrow> string" where
  "join_names ns =
     join '', '' (map (\<lambda>n. case n of None \<Rightarrow> [] | Some JNull \<Rightarrow> [] | Some v \<Rightarrow> to_string v) ns)"

text \<open>
  \<open>response.tool_calls.map((tc) => this.executeTool(tc))\<close>: each call runs up to its
  handler before the next starts, so the notices are added in request order whatever
  the handlers return.
\<close>

fun execute_all :: "platform \<Rightarrow> json list \<Rightarrow> app_state \<Rightarrow> (exn + json) list \<times> app_state" where
  "execute_all P [] s = ([], s)"
| "execute_all P (tc # tcs) s =
     (let (r, s1) = executeTool P tc s;
          (rs, s2) = execute_all P tcs s1
      in (r # rs, s2))"

text \<open>
  \<open>Promise.all\<close>: the results in request order, or the first rejection. Every
  rejection here comes from a handler and takes the same number of steps to settle, so
  the first one is the first in request order.
\<close>

fun promise_all :: "(exn + json) list \<Rightarrow> exn + json list" where
  "promise_all [] = Inr []"
| "promise_all (Inl e # rs) = Inl e"
| "promise_all (Inr v # rs) = (case promise_all rs of Inl e \<Rightarrow> Inl e | Inr vs \<Rightarrow> Inr (v # vs))"

text \<open>The message \<open>{ role: 'assistant', content: null, tool_calls }\<close>.\<close>

definition placeholder :: "json \<Rightarrow> message" where
  "placeholder tcs =
     \<lparr>msg_id = None, role = ''assistant'', content = Some JNull, timestamp = None,
      tool_call_id = None, name = None, tool_calls = Some tcs\<rparr>"

text \<open>The message \<open>{ role: 'tool', tool_call_id, name, content }\<close> of one result.\<close>

definition tool_message :: "json \<Rightarrow> json \<Rightarrow> message" where
  "tool_message tc result =
     \<lparr>msg_id = None, role = ''tool'', content = Some (JStr (json_stringify result)),
      timestamp = None, tool_call_id = member tc ''id'',
      name = optional_member (member tc ''function'') ''name'', tool_calls = None\<rparr>"

text \<open>The \<open>toolResults.forEach\<close>.\<close>

fun append_results :: "platform \<Rightarrow> string \<Rightarrow> json list \<Rightarrow> json list \<Rightarrow> app_state \<Rightarrow> app_state" where
  "append_results P conversationId (tc # tcs) (result # results) s =
     append_results P conversationId tcs results
       (addMessage P ''tool'' (Some (JStr (json_stringify result))) (Some conversationId)
          (push_message conversationId (tool_message tc result) s))"
| "append_results P conversationId tcs results s = s"

text \<open>
  Lines 427 to 437: the \<open>await\<close> of \<open>Promise.all\<close> throws the first rejection;
  otherwise the results are appended and the loop goes on.
\<close>

definition await_tools ::
  "platform \<Rightarrow> string \<Rightarrow> json list \<Rightarrow> (exn + json) list \<times> app_state \<Rightarrow> (exn + bool) \<times> app_state" where
  "await_tools P conversationId calls started =
     (case promise_all (fst started) of
        Inl e \<Rightarrow> (Inl e, snd started)
      | Inr toolResults \<Rightarrow>
          (Inr True, append_results P conversationId calls toolResults (snd started)))"

text \<open>Lines 419 to 437, for the calls of an array \<open>response.tool_calls\<close>.\<close>

definition run_tools :: "platform \<Rightarrow> string \<Rightarrow> json list \<Rightarrow> app_state \<Rightarrow> (exn + bool) \<times> app_state" where
  "run_tools P conversationId calls s =
     (case tool_names calls of
        Inl e \<Rightarrow> (Inl e, s)
      | Inr names \<Rightarrow>
          let s1 = addMessage P ''assistant'' (Some (JStr (''Using tools: '' @ join_names names)))
                     (Some conversationId) s;
              s2 = push_message conversationId (placeholder (JArr calls)) s1
          in await_tools P conversationId calls (execute_all P calls s2))"

text \<open>Lines 413 to 415: a truthy \<open>response.content\<close> becomes an assistant message.\<close>

definition show_content :: "platform \<Rightarrow> string \<Rightarrow> json \<Rightarrow> app_state \<Rightarrow> app_state" where
  "show_content P conversationId response s =
     (if truthy_json response \<and> truthy (member response ''content'')
      then addMessage P ''assistant'' (member response ''content'') (Some conversationId) s
      else s)"

text \<open>
  Lines 413 to 442, what one iteration does with the parsed response: \<open>Inr True\<close> when
  tools ran and the loop goes on, \<open>Inr False\<close> at \<open>break\<close>, \<open>Inl\<close> what is thrown.
  A truthy \<open>tool_calls\<close> with a positive \<open>length\<close> that is not an array has no \<open>map\<close>.
\<close>

definition handle_response :: "platform \<Rightarrow> string \<Rightarrow> json \<Rightarrow> app_state \<Rightarrow> (exn + bool) \<times> app_state" where
  "handle_response P conversationId response s =
     (let s1 = show_content P conversationId response s
      in if truthy_json response \<and> has_items P (member response ''tool_calls'') then
           (case member response ''tool_calls'' of
              Some (JArr calls) \<Rightarrow> run_tools P conversationId calls s1
            | _ \<Rightarrow> (Inl (TypeError ''response.tool_calls.map is not a function''), s1))
         else (Inr False, s1))"

text \<open>
  Lines 407 to 411: the provider call, the counter and the parsing. \<open>conversation\<close> is
  the object the loop holds; the model reads it under its key. \<open>agentLoop\<close> has found the
  key in the map before the first iteration and nothing in the loop removes a key, so
  the first branch is never taken from there.
\<close>

definition fetch_response :: "platform \<Rightarrow> string \<Rightarrow> app_state \<Rightarrow> (exn + json) \<times> app_state" where
  "fetch_response P conversationId s =
     (case map_of (conversations s) conversationId of
        None \<Rightarrow> (Inl (TypeError (cannot_read ''undefined'' ''messages'')), s)
      | Some conversation \<Rightarrow>
          (case callLLM P conversation s of
             (Inl e, s1) \<Rightarrow> (Inl e, s1)
           | (Inr responseData, s1) \<Rightarrow>
               let s2 = s1\<lparr>apiCalls := apiCalls s1 + 1\<rparr>
               in (parseAPIResponse P responseData (provider (llm s2)), s2)))"

text \<open>The \<open>try\<close> block of one iteration.\<close>

definition iteration :: "platform \<Rightarrow> string \<Rightarrow> app_state \<Rightarrow> (exn + bool) \<times> app_state" where
  "iteration P conversationId s =
     (case fetch_response P conversationId s of
        (Inl e, s1) \<Rightarrow> (Inl e, s1)
      | (Inr response, s1) \<Rightarrow> handle_response P conversationId response s1)"

text \<open>\<open>err.message || err\<close> in a template: an error without message prints its name.\<close>

definition describe :: "exn \<Rightarrow> string" where
  "describe err = (if exn_message err = [] then exn_name err else exn_message err)"

text \<open>The \<open>while (maxTurns-- > 0)\<close> loop with \<open>maxTurns\<close> turns left.\<close>

fun agentTurns :: "platform \<Rightarrow> string \<Rightarrow> nat \<Rightarrow> app_state \<Rightarrow> app_state" where
  "agentTurns P conversationId 0 s = s"
| "agentTurns P conversationId (Suc maxTurns) s =
     (case iteration P conversationId s of
        (Inl err, s1) \<Rightarrow>
          addMessage P ''system'' (Some (JStr (''Agent iteration error: '' @ describe err)))
            (Some conversationId) s1
      | (Inr True, s1) \<Rightarrow> agentTurns P conversationId maxTurns s1
      | (Inr False, s1) \<Rightarrow> s1)"

definition agentLoop :: "platform \<Rightarrow> string \<Rightarrow> app_state \<Rightarrow> app_state" where
  "agentLoop P conversationId s =
     (case map_of (conversations s) conversationId of
        None \<Rightarrow> s
      | Some conversation \<Rightarrow> agentTurns P conversationId 5 s)"

text \<open>\<open>String.prototype.trim\<close>, for the white space of ASCII.\<close>

definition is_space :: "char \<Rightarrow> bool" where
  "is_space c = (c = CHR 0x20 \<or> c = CHR 0x09 \<or> c = CHR 0x0A \<or> c = CHR 0x0B \<or> c = CHR 0x0C \<or> c = CHR 0x0D)"

definition trim :: "string \<Rightarrow> string" where
  "trim str = rev (dropWhile is_space (rev (dropWhile is_space str)))"

text \<open>
  \<open>sendMessage\<close>. \<open>agentLoop\<close> returns a state on every path, so the \<open>catch\<close> of
  \<open>sendMessage\<close> has nothing to catch; the \<open>finally\<close> block follows.
\<close>

definition sendMessage :: "platform \<Rightarrow> app_state \<Rightarrow> app_state" where
  "sendMessage P s =
     (let input = (case userInput s of None \<Rightarrow> [] | Some v \<Rightarrow> trim v)
      in if input = [] \<or> isProcessing s then s
         else
           (let s1 = s\<lparr>isProcessing := True\<rparr>;
                (convId, s2) = (case currentConversationId s1 of
                                  None \<Rightarrow> createNewConversation P s1
                                | Some k \<Rightarrow> if k = [] then createNewConversation P s1 else (k, s1));
                s3 = addMessage P ''user'' (Some (JStr input)) (Some convId) s2;
                s4 = (case userInput s3 of None \<Rightarrow> s3 | Some _ \<Rightarrow> s3\<lparr>userInput := Some []\<rparr>);
                s5 = agentLoop P convId s4;
                s6 = s5\<lparr>isProcessing := False\<rparr>
            in saveCurrentConversation P s6))"

text \<open>The messages of the conversation stored under a key.\<close>

definition messages_at :: "string \<Rightarrow> app_state \<Rightarrow> message list" where
  "messages_at k s = (case map_of (conversations s) k of None \<Rightarrow> [] | Some conv \<Rightarrow> messages conv)"

section \<open>Observing the message log\<close>

text \<open>
  A message without its \<open>id\<close> and \<open>timestamp\<close>, which depend on the clock: role, content,
  \<open>tool_call_id\<close>, \<open>name\<close> and \<open>tool_calls\<close>.
\<close>

definition shape :: "message \<Rightarrow> string \<times> jsval \<times> jsval \<times> jsval \<times> jsval" where
  "shape m = (role m, content m, tool_call_id m, name m, tool_calls m)"

text \<open>
  \<open>appended k s s' shapes\<close>: from \<open>s\<close> to \<open>s'\<close> the conversation under \<open>k\<close> gained
  messages of these shapes at its end and nothing else about it changed; the keys of
  the map, the current conversation, the settings, the requests sent and the number of
  provider calls are the same.
\<close>

definition appended ::
  "string \<Rightarrow> app_state \<Rightarrow> app_state \<Rightarrow> (string \<times> jsval \<times> jsval \<times> jsval \<times> jsval) list \<Rightarrow> bool" where
  "appended k s s' shapes \<longleftrightarrow>
     (\<exists>ms. messages_at k s' = messages_at k s @ ms \<and> map shape ms = shapes)
     \<and> map fst (conversations s') = map fst (conversations s)
     \<and> currentConversationId s' = currentConversationId s
     \<and> llm s' = llm s
     \<and> requests s' = requests s
     \<and> llm_calls s' = llm_calls s"

text \<open>The shape of the notice \<open>executeTool\<close> adds for a call.\<close>

definition notice :: "json \<Rightarrow> string \<times> jsval \<times> jsval \<times> jsval \<times> jsval" where
  "notice tc = (''system'', Some (JStr (''Executing tool: '' @ to_string (tool_name tc))), None, None, None)"

text \<open>
  The shapes of the two messages the \<open>forEach\<close> adds for a call and its result: the
  pushed one with \<open>tool_call_id\<close> and \<open>name\<close>, and the one \<open>addMessage\<close> builds.
\<close>

definition result_shapes :: "json \<Rightarrow> json \<Rightarrow> (string \<times> jsval \<times> jsval \<times> jsval \<times> jsval) list" where
  "result_shapes tc r =
     [shape (tool_message tc r), (''tool'', Some (JStr (json_stringify r)), None, None, None)]"

text \<open>Whether \<open>addMessage(role, content, conversationId)\<close> reaches the conversation under \<open>k\<close>.\<close>

definition reaches :: "string \<Rightarrow> jsval \<Rightarrow> string option \<Rightarrow> app_state \<Rightarrow> bool" where
  "reaches k c conversationId s \<longleftrightarrow>
     k \<noteq> []
     \<and> (case conversationId of
          None \<Rightarrow> currentConversationId s = Some k
        | Some t \<Rightarrow> if t = [] then currentConversationId s = Some k else t = k)
     \<and> map_of (conversations s) k \<noteq> None
     \<and> c \<noteq> None \<and> c \<noteq> Some JNull"

text \<open>\<open>extended k s s'\<close>: the same with whatever messages were gained.\<close>

definition extended :: "string \<Rightarrow> app_state \<Rightarrow> app_state \<Rightarrow> bool" where
  "extended k s s' \<longleftrightarrow> (\<exists>shapes. appended k s s' shapes)"

section \<open>A platform and a state for the examples\<close>

text \<open>A provider reply that asks for the unknown tool \<open>foo\<close>.\<close>

definition foo_call :: json where
  "foo_call = JObj [(''id'', JStr ''call_1''), (''type'', JStr ''function''),
                    (''function'', JObj [(''name'', JStr ''foo''), (''arguments'', JStr ''{}'')])]"

definition example_response :: json where
  "example_response =
     JObj [(''content'', JStr ''Let me check.''), (''tool_calls'', JArr [foo_call])]"

definition tool_call_reply :: json where
  "tool_call_reply = JObj [(''choices'', JArr [JObj [(''message'', example_response)]])]"

text \<open>
  The provider always answers with that reply, the clock starts at 1000, and
  \<open>JSON.parse\<close> is cut down to the two texts the examples parse.
\<close>

definition example_platform :: platform where
  "example_platform =
     \<lparr>json_parse = (\<lambda>str. if str = ''{}'' then Some (JObj [])
                            else if str = ''null'' then Some JNull else None),
      string_positive = (\<lambda>str. False),
      now = (\<lambda>k. 1000 + k),
      fetch = (\<lambda>k req. Responded \<lparr>ok = True, status = 200, statusText = ''OK'',
                                     resp_json = Inr tool_call_reply\<rparr>),
      setItem_ok = True\<rparr>"

definition example_settings :: llm_settings where
  "example_settings =
     \<lparr>provider = ''openai'', apiKey = ''sk-test'', model = ''gpt-4o-mini'',
      maxTokens = 2000, temperature = 7 / 10\<rparr>"

definition example_conversation :: conversation where
  "example_conversation =
     \<lparr>conv_id = ''conv_1'', title = ''New Conversation'', messages = [],
      createdAt = 1, updatedAt = 1, preview = ''...''\<rparr>"

definition example_state :: app_state where
  "example_state =
     \<lparr>conversations = [(''conv_1'', example_conversation)],
      currentConversationId = Some ''conv_1'', isProcessing = False,
      llm = example_settings, autoSave = True, apiCalls = 0,
      userInput = Some ''hello'', storage = None, clock = 0, requests = [], llm_calls = 0\<rparr>"





section \<open>Properties of the tool executor\<close>

lemma dispatch_unregistered:
  "\<not> registered nm \<Longrightarrow> dispatch nm args = Inr (JObj [(''error'', JStr (''Unknown tool: '' @ to_string nm))])"
  by (simp add: dispatch_def registered_def)

lemma dispatch_empty_args: "\<exists>r. dispatch nm (JObj []) = Inr r"
  by (simp add: dispatch_def executeWebSearch_def executeCode_def processFile_def
      createVisualization_def)

lemma executeTool_result:
  "toolCall \<noteq> JNull \<Longrightarrow>
   fst (executeTool P toolCall s) = dispatch (tool_name toolCall) (tool_args P toolCall)"
  by (cases toolCall) (simp_all add: executeTool_def read_prop_def Let_def)

text \<open>
  C7: \<open>executeTool\<close> takes its arguments from the top-level field
  \<open>toolCall.arguments\<close> alone. A tool call that has no such field, whatever its
  \<open>function\<close> carries (so also the shape \<open>{id, function: {name, arguments}}\<close> of
  the data model), is dispatched with the empty object \<open>{}\<close>.
\<close>

theorem executeTool_ignores_function_arguments:
  assumes "toolCall \<noteq> JNull" and "member toolCall ''arguments'' = None"
  shows "tool_args P toolCall = JObj []
         \<and> fst (executeTool P toolCall s) = dispatch (tool_name toolCall) (JObj [])"
  using assms by (simp add: executeTool_result tool_args_def)

theorem executeTool_ignores_function_arguments_witness:
  "JObj [(''id'', JStr ''call_2''),
         (''function'', JObj [(''name'', JStr ''web_search''), (''arguments'', JObj [(''query'', JStr ''cats'')])])]
     \<noteq> JNull
   \<and> member (JObj [(''id'', JStr ''call_2''),
         (''function'', JObj [(''name'', JStr ''web_search''), (''arguments'', JObj [(''query'', JStr ''cats'')])])])
        ''arguments'' = None
   \<and> tool_args example_platform
        (JObj [(''id'', JStr ''call_2''),
         (''function'', JObj [(''name'', JStr ''web_search''), (''arguments'', JObj [(''query'', JStr ''cats'')])])])
       = JObj []
   \<and> fst (executeTool example_platform
        (JObj [(''id'', JStr ''call_2''),
         (''function'', JObj [(''name'', JStr ''web_search''), (''arguments'', JObj [(''query'', JStr ''cats'')])])])
        example_state)
       = Inr (JObj [(''status'', JStr ''Simulated search for: undefined''), (''items'', JArr [])])"
  using executeTool_ignores_function_arguments
    [of "JObj [(''id'', JStr ''call_2''),
         (''function'', JObj [(''name'', JStr ''web_search''), (''arguments'', JObj [(''query'', JStr ''cats'')])])]"
        example_platform example_state]
  by (simp add: tool_name_def tool_func_def or_json_def dispatch_def executeWebSearch_def str_of_def)

text \<open>The name \<open>executeTool\<close> resolves is the function's name when that is a non-empty string.\<close>

lemma tool_name_of_function:
  "member toolCall ''function'' = Some func \<Longrightarrow> member func ''name'' = Some (JStr n) \<Longrightarrow> n \<noteq> []
   \<Longrightarrow> tool_name toolCall = JStr n"
  by (cases func) (auto simp: tool_name_def tool_func_def or_json_def split: if_splits)

text \<open>
  C8: when the name \<open>executeTool\<close> resolves for a tool call (the function's name, or
  \<open>unknown\<close> when that is missing or empty) is none of \<open>web_search\<close>, \<open>execute_code\<close>,
  \<open>process_file\<close>, \<open>create_visualization\<close>, the call returns the value
  \<open>{error: "Unknown tool: <name>"}\<close>; it does not throw.
\<close>

theorem executeTool_unknown_tool:
  assumes "toolCall \<noteq> JNull" and "\<not> registered (tool_name toolCall)"
  shows "fst (executeTool P toolCall s)
           = Inr (JObj [(''error'', JStr (''Unknown tool: '' @ to_string (tool_name toolCall)))])"
  using assms by (simp add: executeTool_result dispatch_unregistered)

theorem executeTool_unknown_tool_witness:
  "foo_call \<noteq> JNull \<and> \<not> registered (tool_name foo_call) \<and> tool_name foo_call = JStr ''foo''
   \<and> fst (executeTool example_platform foo_call example_state)
       = Inr (JObj [(''error'', JStr ''Unknown tool: foo'')])"
  using executeTool_unknown_tool [of foo_call example_platform example_state]
  by (simp add: foo_call_def tool_name_def tool_func_def or_json_def registered_def)

text \<open>
  C9: when \<open>toolCall.arguments\<close> is a string that \<open>JSON.parse\<close> rejects, the
  arguments become the empty object \<open>{}\<close> and \<open>executeTool\<close> returns a value: no
  exception leaves it.
\<close>

theorem executeTool_malformed_arguments:
  assumes "member toolCall ''arguments'' = Some (JStr str)" and "json_parse P str = None"
  shows "tool_args P toolCall = JObj [] \<and> (\<exists>r. fst (executeTool P toolCall s) = Inr r)"
proof -
  from assms(1) have present: "toolCall \<noteq> JNull"
    by auto
  have "tool_args P toolCall = JObj []"
    using assms by (simp add: tool_args_def)
  with present show ?thesis
    using dispatch_empty_args [of "tool_name toolCall"] by (simp add: executeTool_result)
qed

theorem executeTool_malformed_arguments_witness:
  "member (JObj [(''function'', JObj [(''name'', JStr ''execute_code'')]), (''arguments'', JStr ''{bad'')])
      ''arguments'' = Some (JStr ''{bad'')
   \<and> json_parse example_platform ''{bad'' = None
   \<and> tool_args example_platform
        (JObj [(''function'', JObj [(''name'', JStr ''execute_code'')]), (''arguments'', JStr ''{bad'')])
       = JObj []
   \<and> fst (executeTool example_platform
        (JObj [(''function'', JObj [(''name'', JStr ''execute_code'')]), (''arguments'', JStr ''{bad'')])
        example_state)
       = Inr (JObj [(''output'', JStr ''Simulated execution of: undefined'')])"
  using executeTool_malformed_arguments
    [of "JObj [(''function'', JObj [(''name'', JStr ''execute_code'')]), (''arguments'', JStr ''{bad'')]"
        "''{bad''" example_platform example_state]
  by (simp add: example_platform_def executeTool_result tool_name_def tool_func_def or_json_def
      dispatch_def executeCode_def str_of_def)

section \<open>Properties of the provider adapter\<close>

lemma show_nat_nonempty: "show_nat n \<noteq> []"
  by (subst show_nat.simps) simp

lemma json_stringify_nonempty: "json_stringify v \<noteq> []"
  by (cases v) (simp_all add: show_int_def show_nat_nonempty quote_def)

text \<open>
  Which messages the filter drops: those without content and those whose content is
  the empty string. A \<open>null\<close> content is sent as the text \<open>null\<close>.
\<close>

lemma kept_iff:
  "truthy_string (serialize_content c) \<longleftrightarrow> c \<noteq> None \<and> c \<noteq> Some (JStr [])"
proof (cases c)
  case None
  then show ?thesis by (simp add: truthy_string_def serialize_content_def)
next
  case (Some v)
  then show ?thesis
    using json_stringify_nonempty [of v]
    by (cases v) (simp_all add: truthy_string_def serialize_content_def)
qed

text \<open>
  The outbound list depends only on the role and the content of each message.
\<close>

lemma messagesForApi_shapes:
  "messagesForApi ms =
     filter (\<lambda>out. truthy_string (snd out))
       (map (\<lambda>sh. (if fst sh = ''tool'' then ''system'' else fst sh,
                    serialize_content (fst (snd sh))))
          (map shape ms))"
  by (induction ms) (simp_all add: messagesForApi_def shape_def)

text \<open>
  C6: the outbound list of \<open>callLLM\<close> holds, in order, the conversation's messages that
  have a content other than the empty string; a message without content or with the
  empty string as its content is dropped. Each message kept is sent with its role,
  except that the role \<open>tool\<close> becomes \<open>system\<close>, and with its content if that is a
  string, else with the \<open>JSON.stringify\<close> text of its content (so the content \<open>null\<close>
  is sent as the text \<open>null\<close>). Hence no outbound message has the role \<open>tool\<close>, and
  none has a missing or empty content.
\<close>

theorem messagesForApi_normalizes:
  "messagesForApi ms =
     map (\<lambda>m. (if role m = ''tool'' then ''system'' else role m,
                (case content m of
                   None \<Rightarrow> None
                 | Some v \<Rightarrow> Some (case v of JStr str \<Rightarrow> str | _ \<Rightarrow> json_stringify v))))
       (filter (\<lambda>m. content m \<noteq> None \<and> content m \<noteq> Some (JStr [])) ms)
   \<and> list_all (\<lambda>out. fst out \<noteq> ''tool'' \<and> snd out \<noteq> None \<and> snd out \<noteq> Some [])
        (messagesForApi ms)"
proof -
  have serialized:
    "serialize_content c =
       (case c of None \<Rightarrow> None
        | Some v \<Rightarrow> Some (case v of JStr str \<Rightarrow> str | _ \<Rightarrow> json_stringify v))" for c
    by (simp add: serialize_content_def split: option.splits json.splits)
  have "messagesForApi ms =
          map (\<lambda>m. (if role m = ''tool'' then ''system'' else role m, serialize_content (content m)))
            (filter (\<lambda>m. truthy_string (serialize_content (content m))) ms)"
    by (induction ms) (simp_all add: messagesForApi_def)
  then have first: "messagesForApi ms =
          map (\<lambda>m. (if role m = ''tool'' then ''system'' else role m,
                     (case content m of
                        None \<Rightarrow> None
                      | Some v \<Rightarrow> Some (case v of JStr str \<Rightarrow> str | _ \<Rightarrow> json_stringify v))))
            (filter (\<lambda>m. content m \<noteq> None \<and> content m \<noteq> Some (JStr [])) ms)"
    unfolding kept_iff unfolding serialized .
  have "fst out \<noteq> ''tool'' \<and> snd out \<noteq> None \<and> snd out \<noteq> Some []"
    if "out \<in> set (messagesForApi ms)" for out
    using that by (auto simp: messagesForApi_def truthy_string_def split: if_splits option.splits)
  then have "list_all (\<lambda>out. fst out \<noteq> ''tool'' \<and> snd out \<noteq> None \<and> snd out \<noteq> Some [])
               (messagesForApi ms)"
    unfolding list_all_iff by blast
  with first show ?thesis
    by (rule conjI)
qed

theorem messagesForApi_normalizes_witness:
  "messagesForApi
     [\<lparr>msg_id = Some ''msg_1000'', role = ''user'', content = Some (JStr ''hi''),
       timestamp = Some 1001, tool_call_id = None, name = None, tool_calls = None\<rparr>,
      placeholder (JArr [foo_call]),
      \<lparr>msg_id = None, role = ''tool'', content = Some (JStr ''42''), timestamp = None,
       tool_call_id = Some (JStr ''call_1''), name = Some (JStr ''foo''), tool_calls = None\<rparr>,
      \<lparr>msg_id = Some ''msg_1002'', role = ''assistant'', content = Some (JStr []),
       timestamp = Some 1003, tool_call_id = None, name = None, tool_calls = None\<rparr>,
      \<lparr>msg_id = None, role = ''user'', content = None, timestamp = None,
       tool_call_id = None, name = None, tool_calls = None\<rparr>,
      \<lparr>msg_id = None, role = ''tool'', content = Some (JNum 7), timestamp = None,
       tool_call_id = None, name = None, tool_calls = None\<rparr>]
   = [(''user'', Some ''hi''), (''assistant'', Some ''null''), (''system'', Some ''42''),
      (''system'', Some ''7'')]"
  using messagesForApi_normalizes
    [of "[\<lparr>msg_id = Some ''msg_1000'', role = ''user'', content = Some (JStr ''hi''),
           timestamp = Some 1001, tool_call_id = None, name = None, tool_calls = None\<rparr>,
          placeholder (JArr [foo_call]),
          \<lparr>msg_id = None, role = ''tool'', content = Some (JStr ''42''), timestamp = None,
           tool_call_id = Some (JStr ''call_1''), name = Some (JStr ''foo''), tool_calls = None\<rparr>,
          \<lparr>msg_id = Some ''msg_1002'', role = ''assistant'', content = Some (JStr []),
           timestamp = Some 1003, tool_call_id = None, name = None, tool_calls = None\<rparr>,
          \<lparr>msg_id = None, role = ''user'', content = None, timestamp = None,
           tool_call_id = None, name = None, tool_calls = None\<rparr>,
          \<lparr>msg_id = None, role = ''tool'', content = Some (JNum 7), timestamp = None,
           tool_call_id = None, name = None, tool_calls = None\<rparr>]"]
  by (simp add: placeholder_def show_int_def show_nat.simps digit_char_def)

text \<open>With provider \<open>openai\<close> and a key, the request carries that list as its messages.\<close>

lemma callLLM_openai_request:
  assumes "provider (llm s) = ''openai''" and "apiKey (llm s) \<noteq> []"
  shows "requests (snd (callLLM P conversation s))
           = requests s
             @ [\<lparr>apiUrl = ''https://api.openai.com/v1/chat/completions'',
                 authorization = Some (''Bearer '' @ apiKey (llm s)),
                 req_body = ChatBody (model (llm s)) (messagesForApi (messages conversation))
                              (maxTokens (llm s)) (temperature (llm s))\<rparr>]"
  using assms
  by (simp add: callLLM_def provider_request_def post_request_def Let_def
      split: fetch_result.splits sum.splits)

text \<open>
  C5: with provider \<open>openai\<close> and no API key, \<open>callLLM\<close> returns the demo payload and
  sends no request.
\<close>

theorem callLLM_demo_mode:
  assumes "provider (llm s) = ''openai''" and "apiKey (llm s) = []"
  shows "fst (callLLM P conversation s) = Inr demo_response
         \<and> requests (snd (callLLM P conversation s)) = requests s"
  using assms by (simp add: callLLM_def Let_def)

theorem callLLM_demo_mode_witness:
  "provider (llm (example_state\<lparr>llm := example_settings\<lparr>apiKey := []\<rparr>\<rparr>)) = ''openai''
   \<and> apiKey (llm (example_state\<lparr>llm := example_settings\<lparr>apiKey := []\<rparr>\<rparr>)) = []
   \<and> fst (callLLM example_platform example_conversation
            (example_state\<lparr>llm := example_settings\<lparr>apiKey := []\<rparr>\<rparr>))
       = Inr (JObj [(''choices'',
                     JArr [JObj [(''message'',
                                  JObj [(''content'',
                                         JStr ''Demo response: provide an API key in settings to use real models.'')])]])])
   \<and> requests (snd (callLLM example_platform example_conversation
                      (example_state\<lparr>llm := example_settings\<lparr>apiKey := []\<rparr>\<rparr>))) = []"
  using callLLM_demo_mode
    [of "example_state\<lparr>llm := example_settings\<lparr>apiKey := []\<rparr>\<rparr>" example_platform example_conversation]
  by (simp add: example_state_def example_settings_def demo_response_def)

text \<open>
  C4, as the code has it: the demo payload comes before the provider is looked at.
  With provider \<open>foo\<close> and no API key, \<open>callLLM\<close> returns the demo payload instead of
  failing.
\<close>

theorem callLLM_unsupported_provider_without_key:
  "fst (callLLM example_platform example_conversation
          (example_state\<lparr>llm := example_settings\<lparr>provider := ''foo'', apiKey := []\<rparr>\<rparr>))
     = Inr demo_response"
  by (simp add: callLLM_def example_state_def example_settings_def Let_def)

text \<open>
  C4, amended: with an API key present, a provider name that is not empty and is none
  of \<open>openai\<close>, \<open>google\<close>, \<open>aipipe\<close> makes \<open>callLLM\<close> fail with an error whose message is
  \<open>Unsupported provider: \<close> followed by that name; no request is sent.
\<close>

theorem callLLM_unsupported_provider:
  assumes "provider (llm s) \<noteq> []" and "apiKey (llm s) \<noteq> []"
    and "provider (llm s) \<noteq> ''openai''" and "provider (llm s) \<noteq> ''google''"
    and "provider (llm s) \<noteq> ''aipipe''"
  shows "fst (callLLM P conversation s) = Inl (Error (''Unsupported provider: '' @ provider (llm s)))
         \<and> requests (snd (callLLM P conversation s)) = requests s"
  using assms by (simp add: callLLM_def provider_request_def Let_def)

theorem callLLM_unsupported_provider_witness:
  "provider (llm (example_state\<lparr>llm := example_settings\<lparr>provider := ''foo''\<rparr>\<rparr>)) \<noteq> []
   \<and> apiKey (llm (example_state\<lparr>llm := example_settings\<lparr>provider := ''foo''\<rparr>\<rparr>)) \<noteq> []
   \<and> provider (llm (example_state\<lparr>llm := example_settings\<lparr>provider := ''foo''\<rparr>\<rparr>)) \<noteq> ''openai''
   \<and> provider (llm (example_state\<lparr>llm := example_settings\<lparr>provider := ''foo''\<rparr>\<rparr>)) \<noteq> ''google''
   \<and> provider (llm (example_state\<lparr>llm := example_settings\<lparr>provider := ''foo''\<rparr>\<rparr>)) \<noteq> ''aipipe''
   \<and> fst (callLLM example_platform example_conversation
            (example_state\<lparr>llm := example_settings\<lparr>provider := ''foo''\<rparr>\<rparr>))
       = Inl (Exn ''Error'' ''Unsupported provider: foo'')
   \<and> requests (snd (callLLM example_platform example_conversation
                      (example_state\<lparr>llm := example_settings\<lparr>provider := ''foo''\<rparr>\<rparr>))) = []"
  using callLLM_unsupported_provider
    [of "example_state\<lparr>llm := example_settings\<lparr>provider := ''foo''\<rparr>\<rparr>" example_platform example_conversation]
  by (simp add: example_state_def example_settings_def Error_def)

section \<open>Appending to the message log\<close>

lemma map_of_map_set [simp]:
  "map_of (map_set k v kvs) k' = (if k' = k then Some v else map_of kvs k')"
  by (induction kvs) auto

lemma keys_map_set [simp]:
  "map_of kvs k = Some v0 \<Longrightarrow> map fst (map_set k v kvs) = map fst kvs"
  by (induction kvs) (auto split: if_splits)

lemma appended_refl: "appended k s s []"
  by (simp add: appended_def)

lemma appended_trans:
  "appended k s s1 a \<Longrightarrow> appended k s1 s2 b \<Longrightarrow> appended k s s2 (a @ b)"
  by (auto simp: appended_def)

lemma appended_present:
  "appended k s s' sh \<Longrightarrow> (map_of (conversations s') k = None) = (map_of (conversations s) k = None)"
proof -
  assume "appended k s s' sh"
  then have "map fst (conversations s') = map fst (conversations s)"
    by (simp add: appended_def)
  then have "fst ` set (conversations s') = fst ` set (conversations s)"
    by (metis set_map)
  then show ?thesis
    by (simp add: map_of_eq_None_iff)
qed

lemma appended_current:
  "appended k s s' sh \<Longrightarrow> currentConversationId s' = currentConversationId s"
  by (simp add: appended_def)

lemma reaches_appended:
  "appended k s s' sh \<Longrightarrow> reaches k c t s' = reaches k c t s"
  using appended_present [of k s s' sh] appended_current [of k s s' sh]
  by (auto simp: reaches_def split: option.splits)

lemma reaches_own:
  "k \<noteq> [] \<Longrightarrow> map_of (conversations s) k \<noteq> None \<Longrightarrow> c \<noteq> None \<Longrightarrow> c \<noteq> Some JNull
   \<Longrightarrow> reaches k c (Some k) s"
  by (simp add: reaches_def)

lemma appended_update:
  "(\<And>conv. messages (f conv) = messages conv) \<Longrightarrow> appended k s (update_conversation k' f s) []"
  by (auto simp: appended_def update_conversation_def messages_at_def split: option.splits)

lemma appended_push:
  "appended k s (push_message k' m s)
     (if k' = k \<and> map_of (conversations s) k \<noteq> None then [shape m] else [])"
  by (auto simp: appended_def push_message_def update_conversation_def messages_at_def
      split: option.splits)

lemma date_now_conversations [simp]: "conversations (snd (date_now P s)) = conversations s"
  by (simp add: date_now_def)

lemma appended_date_now: "appended k s (snd (date_now P s)) []"
  by (simp add: appended_def date_now_def messages_at_def)

lemma appended_touch: "appended k s (touch P k' str s) []"
proof -
  have "appended k (snd (date_now P s)) (touch P k' str s) []"
    by (simp add: touch_def split_beta Let_def appended_update)
  with appended_trans [OF appended_date_now this] show ?thesis by simp
qed

lemma appended_add_to:
  "appended k s (add_to P k' r cv s)
     (if k' = k \<and> map_of (conversations s) k \<noteq> None then [(r, Some cv, None, None, None)] else [])"
proof -
  let ?s1 = "snd (date_now P s)"
  let ?s2 = "snd (date_now P ?s1)"
  let ?m = "\<lparr>msg_id = Some (''msg_'' @ show_nat (fst (date_now P s))), role = r, content = Some cv,
              timestamp = Some (fst (date_now P ?s1)), tool_call_id = None, name = None,
              tool_calls = None\<rparr>"
  let ?s3 = "push_message k' ?m ?s2"
  let ?sh = "if k' = k \<and> map_of (conversations s) k \<noteq> None
             then [(r, Some cv, None, None, None)] else []"
  have clock: "appended k s ?s2 []"
    using appended_trans [OF appended_date_now [of k s P] appended_date_now [of k ?s1 P]] by simp
  have same: "(if k' = k \<and> map_of (conversations ?s2) k \<noteq> None then [shape ?m] else []) = ?sh"
    by (simp add: shape_def)
  have pushed: "appended k ?s2 ?s3 ?sh"
    using appended_push [of k ?s2 k' ?m] unfolding same .
  have plain: "appended k s ?s3 ?sh"
    using appended_trans [OF clock pushed] by simp
  have touched: "appended k s (touch P k' str ?s3) ?sh" for str
    using appended_trans [OF plain appended_touch [of k ?s3 P k' str]] by simp
  have "add_to P k' r cv s = ?s3 \<or> (\<exists>str. add_to P k' r cv s = touch P k' str ?s3)"
    by (cases cv) (auto simp: add_to_def split_beta Let_def)
  with plain touched show ?thesis by metis
qed

text \<open>\<open>addMessage\<close> appends one message to the conversation it reaches and none to the others.\<close>

lemma appended_addMessage:
  "appended k s (addMessage P r c t s) (if reaches k c t s then [(r, c, None, None, None)] else [])"
proof -
  have "addMessage P r c t s = s \<and> \<not> reaches k c t s
        \<or> (\<exists>k' cv. addMessage P r c t s = add_to P k' r cv s \<and> c = Some cv
              \<and> (reaches k c t s \<longleftrightarrow> k' = k \<and> map_of (conversations s) k \<noteq> None))"
    by (auto simp: addMessage_def reaches_def Let_def split: option.splits)
  then show ?thesis
  proof
    assume "addMessage P r c t s = s \<and> \<not> reaches k c t s"
    then show ?thesis by (simp add: appended_refl)
  next
    assume "\<exists>k' cv. addMessage P r c t s = add_to P k' r cv s \<and> c = Some cv
              \<and> (reaches k c t s \<longleftrightarrow> k' = k \<and> map_of (conversations s) k \<noteq> None)"
    then obtain k' cv where h: "addMessage P r c t s = add_to P k' r cv s" "c = Some cv"
      "reaches k c t s \<longleftrightarrow> k' = k \<and> map_of (conversations s) k \<noteq> None"
      by blast
    show ?thesis
      using appended_add_to [of k s P k' r cv] h by (auto split: if_splits)
  qed
qed

lemma executeTool_state:
  "toolCall \<noteq> JNull \<Longrightarrow>
   snd (executeTool P toolCall s)
     = addMessage P ''system'' (Some (JStr (''Executing tool: '' @ to_string (tool_name toolCall))))
         (currentConversationId s) s"
  by (cases toolCall) (simp_all add: executeTool_def read_prop_def Let_def)

lemma appended_executeTool:
  assumes "toolCall \<noteq> JNull"
  shows "appended k s (snd (executeTool P toolCall s))
           (if reaches k (Some (JStr [])) (currentConversationId s) s then [notice toolCall] else [])"
proof -
  let ?c = "Some (JStr (''Executing tool: '' @ to_string (tool_name toolCall)))"
  have r: "reaches k ?c (currentConversationId s) s
             = reaches k (Some (JStr [])) (currentConversationId s) s"
    by (simp add: reaches_def)
  have n: "[(''system'', ?c, None, None, None)] = [notice toolCall]"
    by (simp add: notice_def)
  show ?thesis
    using appended_addMessage [of k s P "''system''" ?c "currentConversationId s"]
    unfolding r n executeTool_state [OF assms] .
qed

lemma appended_execute_all:
  assumes "list_all (\<lambda>tc. tc \<noteq> JNull) calls"
  shows "appended k s (snd (execute_all P calls s))
           (if reaches k (Some (JStr [])) (currentConversationId s) s then map notice calls else [])"
  using assms
proof (induction calls arbitrary: s)
  case Nil
  then show ?case by (simp add: appended_refl)
next
  case (Cons tc tcs)
  let ?s1 = "snd (executeTool P tc s)"
  have nn: "tc \<noteq> JNull" and rest: "list_all (\<lambda>tc. tc \<noteq> JNull) tcs"
    using Cons.prems by simp_all
  have first: "appended k s ?s1
                 (if reaches k (Some (JStr [])) (currentConversationId s) s then [notice tc] else [])"
    by (rule appended_executeTool [OF nn])
  have same: "reaches k (Some (JStr [])) (currentConversationId ?s1) ?s1
                = reaches k (Some (JStr [])) (currentConversationId s) s"
    using reaches_appended [OF first] appended_current [OF first] by simp
  have others: "appended k ?s1 (snd (execute_all P tcs ?s1))
                  (if reaches k (Some (JStr [])) (currentConversationId s) s then map notice tcs else [])"
    using Cons.IH [OF rest, of ?s1] unfolding same .
  have "snd (execute_all P (tc # tcs) s) = snd (execute_all P tcs ?s1)"
    by (simp add: split_beta Let_def)
  then show ?case
    using appended_trans [OF first others] by (simp split: if_splits)
qed

text \<open>What a call settles with does not depend on the state.\<close>

lemma execute_all_results:
  "list_all (\<lambda>tc. tc \<noteq> JNull) calls \<Longrightarrow>
   fst (execute_all P calls s) = map (\<lambda>tc. dispatch (tool_name tc) (tool_args P tc)) calls"
  by (induction calls arbitrary: s) (simp_all add: split_beta Let_def executeTool_result)

lemma tool_names_present:
  "tool_names calls = Inr names \<Longrightarrow> list_all (\<lambda>tc. tc \<noteq> JNull) calls"
  by (induction calls arbitrary: names) (auto simp: read_prop_def split: sum.splits)

lemma promise_all_length: "promise_all rs = Inr vs \<Longrightarrow> length vs = length rs"
  by (induction rs arbitrary: vs rule: promise_all.induct) (auto split: sum.splits)

lemma appended_append_results:
  assumes "k \<noteq> []" and "length calls = length results" and "map_of (conversations s) k \<noteq> None"
  shows "appended k s (append_results P k calls results s)
           (concat (map (\<lambda>(tc, r). result_shapes tc r) (zip calls results)))"
  using assms(2,3)
proof (induction calls results arbitrary: s rule: list_induct2)
  case Nil
  then show ?case by (simp add: appended_refl)
next
  case (Cons tc tcs r rs)
  let ?c = "Some (JStr (json_stringify r))"
  let ?s1 = "push_message k (tool_message tc r) s"
  let ?s2 = "addMessage P ''tool'' ?c (Some k) ?s1"
  have tagged: "appended k s ?s1 [shape (tool_message tc r)]"
    using appended_push [of k s k "tool_message tc r"] Cons.prems by simp
  have p1: "map_of (conversations ?s1) k \<noteq> None"
    using appended_present [OF tagged] Cons.prems by simp
  have "reaches k ?c (Some k) ?s1"
    using assms(1) p1 by (simp add: reaches_own)
  then have shown: "appended k ?s1 ?s2 [(''tool'', ?c, None, None, None)]"
    using appended_addMessage [of k ?s1 P "''tool''" ?c "Some k"] by simp
  have both: "appended k s ?s2 (result_shapes tc r)"
    using appended_trans [OF tagged shown] by (simp add: result_shapes_def)
  have p2: "map_of (conversations ?s2) k \<noteq> None"
    using appended_present [OF both] Cons.prems by simp
  have rest: "appended k ?s2 (append_results P k tcs rs ?s2)
                (concat (map (\<lambda>(tc, r). result_shapes tc r) (zip tcs rs)))"
    by (rule Cons.IH [OF p2])
  show ?case
    using appended_trans [OF both rest] by simp
qed

lemma appended_await_tools:
  assumes cid: "cid \<noteq> []" and p: "map_of (conversations s) cid \<noteq> None"
    and ok: "await_tools P cid calls (settled, s) = (Inr b, s')"
  shows "\<exists>results. promise_all settled = Inr results \<and> b
           \<and> (length settled = length calls \<longrightarrow>
                appended cid s s' (concat (map (\<lambda>(tc, r). result_shapes tc r) (zip calls results))))"
proof (cases "promise_all settled")
  case (Inl e)
  with ok show ?thesis by (simp add: await_tools_def)
next
  case (Inr results)
  with ok have b: "b" and s': "s' = append_results P cid calls results s"
    by (simp_all add: await_tools_def)
  have "appended cid s s' (concat (map (\<lambda>(tc, r). result_shapes tc r) (zip calls results)))"
    if "length calls = length results"
    unfolding s' by (rule appended_append_results [OF cid that p])
  with Inr b promise_all_length [OF Inr] show ?thesis by simp
qed

lemma appended_run_tools:
  assumes cid: "cid \<noteq> []" and p: "map_of (conversations s) cid \<noteq> None"
    and ok: "run_tools P cid calls s = (Inr b, s')"
  shows "\<exists>names results.
           tool_names calls = Inr names
           \<and> promise_all (map (\<lambda>tc. dispatch (tool_name tc) (tool_args P tc)) calls) = Inr results
           \<and> b
           \<and> appended cid s s'
               ([(''assistant'', Some (JStr (''Using tools: '' @ join_names names)), None, None, None),
                 shape (placeholder (JArr calls))]
                @ (if currentConversationId s = Some cid then map notice calls else [])
                @ concat (map (\<lambda>(tc, r). result_shapes tc r) (zip calls results)))"
proof (cases "tool_names calls")
  case (Inl e)
  with ok show ?thesis by (simp add: run_tools_def)
next
  case (Inr names)
  let ?u = "Some (JStr (''Using tools: '' @ join_names names))"
  let ?settled = "map (\<lambda>tc. dispatch (tool_name tc) (tool_args P tc)) calls"
  define s1 where "s1 = addMessage P ''assistant'' ?u (Some cid) s"
  define s2 where "s2 = push_message cid (placeholder (JArr calls)) s1"
  define s3 where "s3 = snd (execute_all P calls s2)"
  have present: "list_all (\<lambda>tc. tc \<noteq> JNull) calls"
    using Inr by (rule tool_names_present)
  have settled: "fst (execute_all P calls s2) = ?settled"
    using present by (rule execute_all_results)
  have "run_tools P cid calls s = await_tools P cid calls (execute_all P calls s2)"
    unfolding s2_def s1_def run_tools_def Inr Let_def by simp
  also have "execute_all P calls s2 = (?settled, s3)"
    using settled by (simp add: s3_def prod_eq_iff)
  finally have aw: "await_tools P cid calls (?settled, s3) = (Inr b, s')"
    using ok by simp
  have "reaches cid ?u (Some cid) s"
    using cid p by (simp add: reaches_own)
  then have a1: "appended cid s s1 [(''assistant'', ?u, None, None, None)]"
    using appended_addMessage [of cid s P "''assistant''" ?u "Some cid"] by (simp add: s1_def)
  have p1: "map_of (conversations s1) cid \<noteq> None"
    using appended_present [OF a1] p by simp
  have a2: "appended cid s1 s2 [shape (placeholder (JArr calls))]"
    using appended_push [of cid s1 cid "placeholder (JArr calls)"] p1 by (simp add: s2_def)
  have p2: "map_of (conversations s2) cid \<noteq> None"
    using appended_present [OF a2] p1 by simp
  have a12: "appended cid s s2 [(''assistant'', ?u, None, None, None), shape (placeholder (JArr calls))]"
    using appended_trans [OF a1 a2] by simp
  have cur2: "currentConversationId s2 = currentConversationId s"
    by (rule appended_current [OF a12])
  have "reaches cid (Some (JStr [])) (currentConversationId s2) s2
          \<longleftrightarrow> currentConversationId s = Some cid"
    using cid p2 by (auto simp: reaches_def cur2 split: option.splits)
  then have a3: "appended cid s2 s3 (if currentConversationId s = Some cid then map notice calls else [])"
    using appended_execute_all [OF present, of cid s2 P] by (simp add: s3_def)
  have p3: "map_of (conversations s3) cid \<noteq> None"
    using appended_present [OF a3] p2 by simp
  from appended_await_tools [OF cid p3 aw] obtain results
    where results: "promise_all ?settled = Inr results" and b: "b"
      and a4: "appended cid s3 s' (concat (map (\<lambda>(tc, r). result_shapes tc r) (zip calls results)))"
    by auto
  have "appended cid s s'
          ([(''assistant'', ?u, None, None, None), shape (placeholder (JArr calls))]
           @ (if currentConversationId s = Some cid then map notice calls else [])
           @ concat (map (\<lambda>(tc, r). result_shapes tc r) (zip calls results)))"
    by (rule appended_trans [OF a12 appended_trans [OF a3 a4]])
  with Inr results b show ?thesis
    by auto
qed

lemma has_items_array: "calls \<noteq> [] \<Longrightarrow> has_items P (Some (JArr calls))"
  by (simp add: has_items_def js_gt0_def)

lemma tool_calls_truthy: "member v ''tool_calls'' = Some x \<Longrightarrow> truthy_json v"
  by (cases v) (auto split: if_splits)

lemma handle_response_array:
  "member response ''tool_calls'' = Some (JArr calls) \<Longrightarrow> calls \<noteq> [] \<Longrightarrow>
   handle_response P cid response s = run_tools P cid calls (show_content P cid response s)"
  by (simp add: handle_response_def Let_def has_items_array tool_calls_truthy)

lemma appended_show_content:
  assumes "cid \<noteq> []" and "map_of (conversations s) cid \<noteq> None"
  shows "appended cid s (show_content P cid response s)
           (if truthy (member response ''content'')
            then [(''assistant'', member response ''content'', None, None, None)] else [])"
proof (cases "truthy_json response \<and> truthy (member response ''content'')")
  case True
  then have "reaches cid (member response ''content'') (Some cid) s"
    using assms by (cases "member response ''content''") (auto simp: reaches_def)
  then show ?thesis
    using True appended_addMessage [of cid s P "''assistant''" "member response ''content''" "Some cid"]
    by (simp add: show_content_def)
next
  case False
  moreover have "\<not> truthy_json response \<Longrightarrow> \<not> truthy (member response ''content'')"
    by (cases response) (simp_all split: if_splits)
  ultimately show ?thesis
    by (auto simp: show_content_def appended_refl)
qed

text \<open>What the tool branch returns, without the state.\<close>

lemma run_tools_result:
  "fst (run_tools P cid calls s) =
     (case tool_names calls of
        Inl e \<Rightarrow> Inl e
      | Inr names \<Rightarrow>
          (case promise_all (map (\<lambda>tc. dispatch (tool_name tc) (tool_args P tc)) calls) of
             Inl e \<Rightarrow> Inl e
           | Inr results \<Rightarrow> Inr True))"
proof (cases "tool_names calls")
  case (Inl e)
  then show ?thesis by (simp add: run_tools_def)
next
  case (Inr names)
  then show ?thesis
    using execute_all_results [OF tool_names_present [OF Inr]]
    by (simp add: run_tools_def await_tools_def Let_def split: sum.splits)
qed

section \<open>An iteration with tool calls\<close>

text \<open>The example: the reply asks once for \<open>foo\<close>, and the conversation is empty.\<close>

lemma example_tool_calls: "member example_response ''tool_calls'' = Some (JArr [foo_call])"
  by (simp add: example_response_def)

lemma example_content: "member example_response ''content'' = Some (JStr ''Let me check.'')"
  by (simp add: example_response_def)

lemma example_names: "tool_names [foo_call] = Inr [Some (JStr ''foo'')]"
  by (simp add: foo_call_def read_prop_def)

lemma example_tool_name: "tool_name foo_call = JStr ''foo''"
  by (simp add: foo_call_def tool_name_def tool_func_def or_json_def)

lemma example_call_fields:
  "member foo_call ''id'' = Some (JStr ''call_1'')"
  "optional_member (member foo_call ''function'') ''name'' = Some (JStr ''foo'')"
  by (simp_all add: foo_call_def optional_member_def)

lemma example_settled:
  "promise_all (map (\<lambda>tc. dispatch (tool_name tc) (tool_args example_platform tc)) [foo_call])
     = Inr [JObj [(''error'', JStr ''Unknown tool: foo'')]]"
  by (simp add: example_tool_name dispatch_def)

lemma example_present: "map_of (conversations example_state) ''conv_1'' = Some example_conversation"
  by (simp add: example_state_def)

lemma example_empty: "messages_at ''conv_1'' example_state = []"
  by (simp add: messages_at_def example_state_def example_conversation_def)

lemma example_returns:
  "handle_response example_platform ''conv_1'' example_response example_state
     = (Inr True, snd (handle_response example_platform ''conv_1'' example_response example_state))"
proof -
  have ne: "[foo_call] \<noteq> []"
    by simp
  have "fst (handle_response example_platform ''conv_1'' example_response example_state) = Inr True"
    unfolding handle_response_array [OF example_tool_calls ne] run_tools_result example_names
      example_settled
    by simp
  then show ?thesis
    by (simp add: prod_eq_iff)
qed

text \<open>
  C2, as the code has it. The conversation is empty and the reply asks for one tool,
  \<open>foo\<close>. After the iteration has handled the reply the log holds two messages of role
  \<open>tool\<close> for the one call: the one pushed with \<open>tool_call_id\<close> and \<open>name\<close>, and a second
  with the same content and neither, which \<open>addMessage('tool', ...)\<close>, called to display
  the result, pushes as well. The list \<open>callLLM\<close> builds from this log for the next
  request carries the result twice.
\<close>

theorem one_tool_call_two_tool_messages:
  "messages_at ''conv_1'' example_state = []
   \<and> map shape (messages_at ''conv_1''
        (snd (handle_response example_platform ''conv_1'' example_response example_state)))
     = [(''assistant'', Some (JStr ''Let me check.''), None, None, None),
        (''assistant'', Some (JStr ''Using tools: foo''), None, None, None),
        (''assistant'', Some JNull, None, None, Some (JArr [foo_call])),
        (''system'', Some (JStr ''Executing tool: foo''), None, None, None),
        (''tool'', Some (JStr (json_stringify (JObj [(''error'', JStr ''Unknown tool: foo'')]))),
           Some (JStr ''call_1''), Some (JStr ''foo''), None),
        (''tool'', Some (JStr (json_stringify (JObj [(''error'', JStr ''Unknown tool: foo'')]))),
           None, None, None)]
   \<and> messagesForApi (messages_at ''conv_1''
        (snd (handle_response example_platform ''conv_1'' example_response example_state)))
     = [(''assistant'', Some ''Let me check.''),
        (''assistant'', Some ''Using tools: foo''),
        (''assistant'', Some ''null''),
        (''system'', Some ''Executing tool: foo''),
        (''system'', Some (json_stringify (JObj [(''error'', JStr ''Unknown tool: foo'')]))),
        (''system'', Some (json_stringify (JObj [(''error'', JStr ''Unknown tool: foo'')])))]"
proof -
  let ?s1 = "show_content example_platform ''conv_1'' example_response example_state"
  let ?s' = "snd (handle_response example_platform ''conv_1'' example_response example_state)"
  have present: "map_of (conversations example_state) ''conv_1'' \<noteq> None"
    by (simp add: example_present)
  have first: "appended ''conv_1'' example_state ?s1
                 [(''assistant'', Some (JStr ''Let me check.''), None, None, None)]"
    using appended_show_content [of "''conv_1''" example_state example_platform example_response] present
    by (simp add: example_content)
  have present1: "map_of (conversations ?s1) ''conv_1'' \<noteq> None"
    using appended_present [OF first] present by simp
  have ne: "[foo_call] \<noteq> []"
    by simp
  have "run_tools example_platform ''conv_1'' [foo_call] ?s1 = (Inr True, ?s')"
    using example_returns unfolding handle_response_array [OF example_tool_calls ne] .
  from appended_run_tools [OF _ present1 this] obtain names results
    where n: "tool_names [foo_call] = Inr names"
      and r: "promise_all (map (\<lambda>tc. dispatch (tool_name tc) (tool_args example_platform tc)) [foo_call])
             = Inr results"
      and rest: "appended ''conv_1'' ?s1 ?s'
                   ([(''assistant'', Some (JStr (''Using tools: '' @ join_names names)), None, None, None),
                     shape (placeholder (JArr [foo_call]))]
                    @ (if currentConversationId ?s1 = Some ''conv_1'' then map notice [foo_call] else [])
                    @ concat (map (\<lambda>(tc, r). result_shapes tc r) (zip [foo_call] results)))"
    by blast
  have names: "names = [Some (JStr ''foo'')]"
    using n unfolding example_names by simp
  have results: "results = [JObj [(''error'', JStr ''Unknown tool: foo'')]]"
    using r unfolding example_settled by simp
  have current: "currentConversationId ?s1 = Some ''conv_1''"
    using appended_current [OF first] by (simp add: example_state_def)
  have "appended ''conv_1'' ?s1 ?s'
          [(''assistant'', Some (JStr ''Using tools: foo''), None, None, None),
           (''assistant'', Some JNull, None, None, Some (JArr [foo_call])),
           (''system'', Some (JStr ''Executing tool: foo''), None, None, None),
           (''tool'', Some (JStr (json_stringify (JObj [(''error'', JStr ''Unknown tool: foo'')]))),
              Some (JStr ''call_1''), Some (JStr ''foo''), None),
           (''tool'', Some (JStr (json_stringify (JObj [(''error'', JStr ''Unknown tool: foo'')]))),
              None, None, None)]"
    using rest unfolding names results current
    by (simp add: join_names_def shape_def placeholder_def notice_def example_tool_name
        result_shapes_def tool_message_def example_call_fields)
  from appended_trans [OF first this]
  have log: "map shape (messages_at ''conv_1'' ?s')
               = [(''assistant'', Some (JStr ''Let me check.''), None, None, None),
                  (''assistant'', Some (JStr ''Using tools: foo''), None, None, None),
                  (''assistant'', Some JNull, None, None, Some (JArr [foo_call])),
                  (''system'', Some (JStr ''Executing tool: foo''), None, None, None),
                  (''tool'', Some (JStr (json_stringify (JObj [(''error'', JStr ''Unknown tool: foo'')]))),
                     Some (JStr ''call_1''), Some (JStr ''foo''), None),
                  (''tool'', Some (JStr (json_stringify (JObj [(''error'', JStr ''Unknown tool: foo'')]))),
                     None, None, None)]"
    by (auto simp: appended_def example_empty)
  have sent: "messagesForApi (messages_at ''conv_1'' ?s')
                = [(''assistant'', Some ''Let me check.''),
                   (''assistant'', Some ''Using tools: foo''),
                   (''assistant'', Some ''null''),
                   (''system'', Some ''Executing tool: foo''),
                   (''system'', Some (json_stringify (JObj [(''error'', JStr ''Unknown tool: foo'')]))),
                   (''system'', Some (json_stringify (JObj [(''error'', JStr ''Unknown tool: foo'')])))]"
    unfolding messagesForApi_shapes log
    by (simp add: serialize_content_def truthy_string_def)
  from log sent show ?thesis
    by (simp only: example_empty simp_thms)
qed

text \<open>Counting the gained messages by role and by content.\<close>

lemma notices_not_tool: "filter (\<lambda>sh. fst sh = ''tool'') (map notice calls) = []"
  by (induction calls) (simp_all add: notice_def)

lemma notices_not_null: "filter (\<lambda>sh. fst (snd sh) = Some JNull) (map notice calls) = []"
  by (induction calls) (simp_all add: notice_def)

lemma results_all_tool:
  "length calls = length results \<Longrightarrow>
   length (filter (\<lambda>sh. fst sh = ''tool'')
             (concat (map (\<lambda>(tc, r). result_shapes tc r) (zip calls results))))
     = 2 * length calls"
  by (induction calls results rule: list_induct2)
    (simp_all add: result_shapes_def shape_def tool_message_def)

lemma results_not_null:
  "filter (\<lambda>sh. fst (snd sh) = Some JNull)
     (concat (map (\<lambda>(tc, r). result_shapes tc r) (zip calls results))) = []"
  by (induction calls results rule: list_induct2')
    (simp_all add: result_shapes_def shape_def tool_message_def)

lemma truthy_not_null: "truthy c \<Longrightarrow> c \<noteq> Some JNull"
  by auto

text \<open>
  What an iteration appends in general. When the parsed response carries an array of
  tool calls that is not empty and handling it throws nothing, the conversation's log
  gains, in this order and before any further provider call or request: the response's
  content as an assistant message if it is truthy; the assistant notice
  \<open>Using tools: ...\<close>; the placeholder assistant message with content \<open>null\<close> and the
  raw \<open>tool_calls\<close>; one system notice \<open>Executing tool: ...\<close> per call if the
  conversation is the current one; and then, for each call in request order, the \<open>tool\<close>
  message carrying the call's id and function name followed by the \<open>tool\<close> message
  \<open>addMessage\<close> pushes, with the same content and no \<open>tool_call_id\<close>. One gained message
  has the content \<open>null\<close>, the placeholder, and twice as many as there are calls have
  the role \<open>tool\<close>.
\<close>

lemma handle_response_gains:
  assumes cid: "cid \<noteq> []" and conv: "map_of (conversations s) cid = Some conv"
    and tcs: "member response ''tool_calls'' = Some (JArr calls)" and ne: "calls \<noteq> []"
    and ok: "handle_response P cid response s = (Inr b, s')"
  shows "\<exists>names results gained.
           tool_names calls = Inr names
           \<and> promise_all (map (\<lambda>tc. dispatch (tool_name tc) (tool_args P tc)) calls) = Inr results
           \<and> length results = length calls
           \<and> b
           \<and> appended cid s s' gained
           \<and> gained =
               (if truthy (member response ''content'')
                then [(''assistant'', member response ''content'', None, None, None)] else [])
               @ [(''assistant'', Some (JStr (''Using tools: '' @ join_names names)), None, None, None),
                  shape (placeholder (JArr calls))]
               @ (if currentConversationId s = Some cid then map notice calls else [])
               @ concat (map (\<lambda>(tc, r). result_shapes tc r) (zip calls results))
           \<and> filter (\<lambda>sh. fst (snd sh) = Some JNull) gained = [shape (placeholder (JArr calls))]
           \<and> length (filter (\<lambda>sh. fst sh = ''tool'') gained) = 2 * length calls"
proof -
  let ?s1 = "show_content P cid response s"
  let ?c = "member response ''content''"
  have present: "map_of (conversations s) cid \<noteq> None"
    using conv by simp
  have first: "appended cid s ?s1
                 (if truthy ?c then [(''assistant'', ?c, None, None, None)] else [])"
    by (rule appended_show_content [OF cid present])
  have present1: "map_of (conversations ?s1) cid \<noteq> None"
    using appended_present [OF first] present by simp
  have current: "currentConversationId ?s1 = currentConversationId s"
    by (rule appended_current [OF first])
  have "run_tools P cid calls ?s1 = (Inr b, s')"
    using ok by (simp add: handle_response_array [OF tcs ne])
  from appended_run_tools [OF cid present1 this] obtain names results
    where names: "tool_names calls = Inr names"
      and results: "promise_all (map (\<lambda>tc. dispatch (tool_name tc) (tool_args P tc)) calls) = Inr results"
      and b: "b"
      and rest: "appended cid ?s1 s'
                   ([(''assistant'', Some (JStr (''Using tools: '' @ join_names names)), None, None, None),
                     shape (placeholder (JArr calls))]
                    @ (if currentConversationId s = Some cid then map notice calls else [])
                    @ concat (map (\<lambda>(tc, r). result_shapes tc r) (zip calls results)))"
    unfolding current by blast
  define gained where
    "gained =
       (if truthy ?c then [(''assistant'', ?c, None, None, None)] else [])
       @ [(''assistant'', Some (JStr (''Using tools: '' @ join_names names)), None, None, None),
          shape (placeholder (JArr calls))]
       @ (if currentConversationId s = Some cid then map notice calls else [])
       @ concat (map (\<lambda>(tc, r). result_shapes tc r) (zip calls results))"
  have len: "length results = length calls"
    using promise_all_length [OF results] by simp
  have all: "appended cid s s' gained"
    unfolding gained_def by (rule appended_trans [OF first rest])
  have nulls: "filter (\<lambda>sh. fst (snd sh) = Some JNull) gained = [shape (placeholder (JArr calls))]"
    by (simp add: gained_def notices_not_null results_not_null truthy_not_null shape_def
        placeholder_def)
  have tools: "length (filter (\<lambda>sh. fst sh = ''tool'') gained) = 2 * length calls"
    using results_all_tool [of calls results] len
    by (simp add: gained_def notices_not_tool shape_def placeholder_def)
  from names results len b all gained_def nulls tools show ?thesis
    by blast
qed

section \<open>What the loop leaves alone\<close>

lemma extendedI: "appended k s s' shapes \<Longrightarrow> extended k s s'"
  by (auto simp: extended_def)

lemma extended_refl: "extended k s s"
  using appended_refl by (rule extendedI)

lemma extended_trans: "extended k s s1 \<Longrightarrow> extended k s1 s2 \<Longrightarrow> extended k s s2"
  unfolding extended_def using appended_trans by blast

lemma extended_addMessage: "extended k s (addMessage P r c t s)"
  using appended_addMessage by (rule extendedI)

lemma extended_push: "extended k s (push_message k' m s)"
  using appended_push by (rule extendedI)

lemma extended_executeTool: "extended k s (snd (executeTool P toolCall s))"
proof (cases "toolCall = JNull")
  case True
  then show ?thesis by (simp add: executeTool_def read_prop_def extended_refl)
next
  case False
  then show ?thesis by (simp add: executeTool_state extended_addMessage)
qed

lemma extended_execute_all: "extended k s (snd (execute_all P calls s))"
proof (induction calls arbitrary: s)
  case Nil
  then show ?case by (simp add: extended_refl)
next
  case (Cons tc tcs)
  have "snd (execute_all P (tc # tcs) s) = snd (execute_all P tcs (snd (executeTool P tc s)))"
    by (simp add: split_beta Let_def)
  then show ?case
    using extended_trans [OF extended_executeTool Cons.IH] by simp
qed

lemma extended_append_results: "extended k s (append_results P cid calls results s)"
proof (induction P cid calls results s rule: append_results.induct)
  case (1 P cid tc tcs result results s)
  have "extended k s (addMessage P ''tool'' (Some (JStr (json_stringify result))) (Some cid)
                        (push_message cid (tool_message tc result) s))"
    using extended_trans [OF extended_push extended_addMessage] .
  then show ?case
    using extended_trans [OF _ "1.IH"] by simp
qed (simp_all add: extended_refl)

lemma extended_await_tools: "extended k (snd started) (snd (await_tools P cid calls started))"
  by (cases "promise_all (fst started)")
    (simp_all add: await_tools_def extended_refl extended_append_results)

lemma extended_run_tools: "extended k s (snd (run_tools P cid calls s))"
proof (cases "tool_names calls")
  case (Inl e)
  then show ?thesis by (simp add: run_tools_def extended_refl)
next
  case (Inr names)
  let ?s1 = "addMessage P ''assistant'' (Some (JStr (''Using tools: '' @ join_names names))) (Some cid) s"
  let ?s2 = "push_message cid (placeholder (JArr calls)) ?s1"
  have "run_tools P cid calls s = await_tools P cid calls (execute_all P calls ?s2)"
    unfolding run_tools_def Inr Let_def by simp
  moreover have "extended k s (snd (execute_all P calls ?s2))"
    using extended_trans [OF extended_trans [OF extended_addMessage extended_push] extended_execute_all] .
  ultimately show ?thesis
    using extended_trans [OF _ extended_await_tools] by simp
qed

lemma extended_show_content: "extended k s (show_content P cid response s)"
  by (simp add: show_content_def extended_refl extended_addMessage)

lemma extended_handle_response: "extended k s (snd (handle_response P cid response s))"
proof -
  let ?s1 = "show_content P cid response s"
  have "snd (handle_response P cid response s) = ?s1
        \<or> (\<exists>calls. snd (handle_response P cid response s) = snd (run_tools P cid calls ?s1))"
    unfolding handle_response_def Let_def
    by (auto split: option.splits json.splits)
  moreover have shown: "extended k s ?s1"
    by (rule extended_show_content)
  moreover have "extended k s (snd (run_tools P cid calls ?s1))" for calls
    using extended_trans [OF shown extended_run_tools] .
  ultimately show ?thesis
    by auto
qed

lemma extended_calls: "extended k s s' \<Longrightarrow> llm_calls s' = llm_calls s"
  by (auto simp: extended_def appended_def)

lemma extended_llm: "extended k s s' \<Longrightarrow> llm s' = llm s"
  by (auto simp: extended_def appended_def)

lemma extended_present:
  "extended k s s' \<Longrightarrow> (map_of (conversations s') k = None) = (map_of (conversations s) k = None)"
  unfolding extended_def using appended_present by blast

lemma post_request_conversations [simp]:
  "conversations (snd (post_request P req s)) = conversations s"
  by (simp add: post_request_def Let_def split: fetch_result.splits sum.splits)

lemma post_request_calls [simp]:
  "llm_calls (snd (post_request P req s)) = llm_calls s"
  by (simp add: post_request_def Let_def split: fetch_result.splits sum.splits)

lemma post_request_llm [simp]:
  "llm (snd (post_request P req s)) = llm s"
  by (simp add: post_request_def Let_def split: fetch_result.splits sum.splits)

lemma callLLM_conversations [simp]:
  "conversations (snd (callLLM P conv s)) = conversations s"
  by (simp add: callLLM_def Let_def split: sum.splits)

text \<open>Every invocation of \<open>callLLM\<close> is counted, whatever it returns.\<close>

lemma callLLM_calls [simp]:
  "llm_calls (snd (callLLM P conv s)) = Suc (llm_calls s)"
  by (simp add: callLLM_def Let_def split: sum.splits)

lemma callLLM_llm [simp]:
  "llm (snd (callLLM P conv s)) = llm s"
  by (simp add: callLLM_def Let_def split: sum.splits)


lemma fetch_response_calls:
  "llm_calls (snd (fetch_response P cid s)) \<le> Suc (llm_calls s)"
  by (simp add: fetch_response_def split_beta Let_def split: option.splits prod.splits sum.splits)

lemma iteration_snd:
  "snd (iteration P cid s) = snd (fetch_response P cid s)
   \<or> (\<exists>response. snd (iteration P cid s)
          = snd (handle_response P cid response (snd (fetch_response P cid s))))"
  by (auto simp: iteration_def split: prod.splits sum.splits)

text \<open>One iteration makes at most one provider call.\<close>

lemma iteration_calls: "llm_calls (snd (iteration P cid s)) \<le> Suc (llm_calls s)"
  using iteration_snd [of P cid s] fetch_response_calls [of P cid s]
    extended_calls [OF extended_handle_response]
  by metis


lemma agentTurns_calls: "llm_calls (agentTurns P cid n s) \<le> llm_calls s + n"
proof (induction n arbitrary: s)
  case 0
  then show ?case by simp
next
  case (Suc n)
  obtain r s1 where it: "iteration P cid s = (r, s1)"
    by (cases "iteration P cid s")
  have le: "llm_calls s1 \<le> Suc (llm_calls s)"
    using iteration_calls [of P cid s] it by simp
  show ?case
  proof (cases r)
    case (Inl err)
    then show ?thesis
      using it le extended_calls [OF extended_addMessage] by simp
  next
    case (Inr go)
    then show ?thesis
      using it le Suc.IH [of s1] by (cases go) simp_all
  qed
qed

lemma agentLoop_calls: "llm_calls (agentLoop P cid s) \<le> llm_calls s + 5"
  using agentTurns_calls [of P cid 5 s] by (simp add: agentLoop_def split: option.splits)

lemma createNewConversation_calls [simp]:
  "llm_calls (snd (createNewConversation P s)) = llm_calls s"
  by (simp add: createNewConversation_def loadConversation_def date_now_def split_beta Let_def)

lemma saveCurrentConversation_calls [simp]:
  "llm_calls (saveCurrentConversation P s) = llm_calls s"
  by (simp add: saveCurrentConversation_def)

section \<open>The bound on provider calls\<close>

text \<open>
  C1: \<open>agentLoop\<close> and \<open>sendMessage\<close> are total functions: the loop is a recursion on
  the turns left, five at the start. Whatever the provider, the parser and the tools
  return, one invocation of \<open>agentLoop\<close>, and so one of \<open>sendMessage\<close>, invokes \<open>callLLM\<close>
  at most five times.
\<close>

theorem agentLoop_at_most_five_calls:
  "llm_calls (agentLoop P conversationId s) \<le> llm_calls s + 5
   \<and> llm_calls (sendMessage P s) \<le> llm_calls s + 5"
proof
  show "llm_calls (agentLoop P conversationId s) \<le> llm_calls s + 5"
    by (rule agentLoop_calls)
next
  define input where "input = (case userInput s of None \<Rightarrow> [] | Some v \<Rightarrow> trim v)"
  define started where
    "started = (case currentConversationId (s\<lparr>isProcessing := True\<rparr>) of
                  None \<Rightarrow> createNewConversation P (s\<lparr>isProcessing := True\<rparr>)
                | Some k \<Rightarrow> if k = [] then createNewConversation P (s\<lparr>isProcessing := True\<rparr>)
                            else (k, s\<lparr>isProcessing := True\<rparr>))"
  define s3 where "s3 = addMessage P ''user'' (Some (JStr input)) (Some (fst started)) (snd started)"
  define s4 where "s4 = (case userInput s3 of None \<Rightarrow> s3 | Some _ \<Rightarrow> s3\<lparr>userInput := Some []\<rparr>)"
  have c2: "llm_calls (snd started) = llm_calls s"
    by (simp add: started_def split: option.splits)
  have c3: "llm_calls s3 = llm_calls s"
    unfolding s3_def using extended_calls [OF extended_addMessage] c2 by simp
  have c4: "llm_calls s4 = llm_calls s"
    using c3 by (simp add: s4_def split: option.splits)
  have "sendMessage P s = s
        \<or> sendMessage P s
            = saveCurrentConversation P ((agentLoop P (fst started) s4)\<lparr>isProcessing := False\<rparr>)"
    unfolding sendMessage_def Let_def input_def [symmetric] started_def [symmetric] split_beta
      s3_def [symmetric] s4_def [symmetric]
    by simp
  then show "llm_calls (sendMessage P s) \<le> llm_calls s + 5"
    using agentLoop_calls [of P "fst started" s4] c4 by auto
qed

text \<open>
  The bound is reached: against a provider that asks for a tool in every reply, the
  loop calls it five times and stops.
\<close>

lemma example_parsed: "parseAPIResponse example_platform tool_call_reply ''openai'' = Inr example_response"
  by (simp add: parseAPIResponse_def parse_chat_def read_prop_def has_items_def js_gt0_def
      read_at0_def choice_message_def or_json_def tool_call_reply_def example_response_def)

lemma example_iteration:
  assumes cfg: "llm s = example_settings" and present: "map_of (conversations s) ''conv_1'' \<noteq> None"
  shows "fst (iteration example_platform ''conv_1'' s) = Inr True
         \<and> llm (snd (iteration example_platform ''conv_1'' s)) = example_settings
         \<and> map_of (conversations (snd (iteration example_platform ''conv_1'' s))) ''conv_1'' \<noteq> None
         \<and> llm_calls (snd (iteration example_platform ''conv_1'' s)) = Suc (llm_calls s)"
proof -
  obtain conv where conv: "map_of (conversations s) ''conv_1'' = Some conv"
    using present by auto
  define s1 where "s1 = snd (callLLM example_platform conv s)"
  define s2 where "s2 = s1\<lparr>apiCalls := apiCalls s1 + 1\<rparr>"
  have call: "callLLM example_platform conv s = (Inr tool_call_reply, s1)"
    by (simp add: s1_def callLLM_def provider_request_def post_request_def cfg example_settings_def
        example_platform_def Let_def)
  have s1: "llm s1 = example_settings" "llm_calls s1 = Suc (llm_calls s)"
    "conversations s1 = conversations s"
    by (simp_all add: s1_def cfg)
  have "fetch_response example_platform ''conv_1'' s
          = (parseAPIResponse example_platform tool_call_reply (provider (llm s2)), s2)"
    by (simp add: fetch_response_def conv call s2_def Let_def)
  also have "provider (llm s2) = ''openai''"
    by (simp add: s2_def s1 example_settings_def)
  finally have fetched: "fetch_response example_platform ''conv_1'' s = (Inr example_response, s2)"
    by (simp add: example_parsed)
  have it: "iteration example_platform ''conv_1'' s
              = handle_response example_platform ''conv_1'' example_response s2"
    by (simp add: iteration_def fetched)
  have ne: "[foo_call] \<noteq> []"
    by simp
  have go: "fst (handle_response example_platform ''conv_1'' example_response s2) = Inr True"
    unfolding handle_response_array [OF example_tool_calls ne] run_tools_result example_names
      example_settled
    by simp
  have ext: "extended ''conv_1'' s2 (snd (handle_response example_platform ''conv_1'' example_response s2))"
    by (rule extended_handle_response)
  show ?thesis
    using go extended_llm [OF ext] extended_calls [OF ext] extended_present [OF ext] present
    by (simp add: it s2_def s1)
qed

lemma example_turns:
  "llm s = example_settings \<Longrightarrow> map_of (conversations s) ''conv_1'' \<noteq> None \<Longrightarrow>
   llm_calls (agentTurns example_platform ''conv_1'' n s) = llm_calls s + n"
proof (induction n arbitrary: s)
  case 0
  then show ?case by simp
next
  case (Suc n)
  obtain r s1 where it: "iteration example_platform ''conv_1'' s = (r, s1)"
    by (cases "iteration example_platform ''conv_1'' s")
  from example_iteration [OF Suc.prems] it
  have "r = Inr True" "llm s1 = example_settings" "map_of (conversations s1) ''conv_1'' \<noteq> None"
    "llm_calls s1 = Suc (llm_calls s)"
    by simp_all
  then show ?case
    using Suc.IH [of s1] it by simp
qed

lemma agentLoop_five_calls_example:
  "llm_calls (agentLoop example_platform ''conv_1'' example_state) = 5"
proof -
  have "llm example_state = example_settings"
    and "map_of (conversations example_state) ''conv_1'' \<noteq> None"
    and "llm_calls example_state = 0"
    by (simp_all add: example_state_def)
  then show ?thesis
    using example_turns [of example_state 5] by (simp add: agentLoop_def split: option.splits)
qed

section \<open>An iteration that throws\<close>



section \<open>Saving and reloading the conversations\<close>






lemma loadConversation_conversations [simp]:
  "conversations (loadConversation k s) = conversations s"
  by (simp add: loadConversation_def)

text \<open>Reading back the JSON value of a message, a conversation and the entries.\<close>

lemma decode_list_map:
  "(\<And>x. f (g x) = Some x) \<Longrightarrow> decode_list f (map g xs) = Some xs"
  by (induction xs) simp_all

lemma decode_message_json: "decode_message (message_json m) = Some m"
proof -
  have "decode_message (message_json m)
          = Some \<lparr>msg_id = msg_id m, role = role m, content = content m, timestamp = timestamp m,
                  tool_call_id = tool_call_id m, name = name m, tool_calls = tool_calls m\<rparr>"
    by (simp add: decode_message_def message_json_def opt_field_def as_string_def opt_string_def
        opt_nat_def split: option.splits)
  then show ?thesis
    by simp
qed

lemma decode_conversation_json: "decode_conversation (conversation_json c) = Some c"
  by (simp add: decode_conversation_def conversation_json_def as_string_def stamp_def
      decode_messages_def decode_list_map [of decode_message message_json, OF decode_message_json])

lemma stored_entries_json: "stored_entries (entries_json entries) = Some entries"
proof -
  have "decode_entry (JArr [JStr (fst e), conversation_json (snd e)]) = Some e" for e
    by (simp add: decode_entry_def decode_conversation_json)
  then show ?thesis
    by (simp add: stored_entries_def entries_json_def decode_list_map)
qed


text \<open>
  An empty map is stored as the text of an empty array; reloading it finds no most
  recent conversation and creates one.
\<close>

lemma empty_map_reloads_with_new_conversation:
  assumes "storage s = Some (json_stringify (entries_json []))"
    and "json_parse P (json_stringify (entries_json [])) = Some (entries_json [])"
  shows "conversations (loadConversationHistory P s)
           = conversations (snd (createNewConversation P (s\<lparr>conversations := []\<rparr>)))"
  using assms json_stringify_nonempty [of "entries_json []"]
  by (simp add: loadConversationHistory_def stored_entries_json new_Map_def by_recency_def Let_def)




end
